theory Spec2Isabelle
  imports Complex_Main
begin

section \<open>Shared data model\<close>

text \<open>
  The values the Python code keeps in the shared state dictionary and reads from the
  configuration: \<open>None\<close>, booleans, integers, floats (as reals) and strings.
\<close>

datatype pyval = PNone | PBool bool | PInt int | PFloat real | PStr string

text \<open>Python truthiness, as used by \<open>if x\<close>, \<open>not x\<close> and \<open>1 if x else 0\<close>.\<close>

fun truthy :: "pyval \<Rightarrow> bool" where
  "truthy PNone = False"
| "truthy (PBool b) = b"
| "truthy (PInt i) = (i \<noteq> 0)"
| "truthy (PFloat r) = (r \<noteq> 0)"
| "truthy (PStr s) = (s \<noteq> [])"

text \<open>
  Python numbers as the resource controller and \<open>float()\<close> meet them: an \<open>int\<close>, a finite
  \<open>float\<close> (given by its exact value), the two infinities and NaN. Float arithmetic is
  IEEE 754 binary64 with rounding to nearest, ties to even: \<open>round_nearest y\<close> is the
  multiple of the quantum of \<open>y\<close> nearest to \<open>y\<close>, where the quantum is 2 to the power
  \<open>quantum_exp y\<close>, the exponent of the last of the 53 bits of the significand and never
  below -1074 (subnormal numbers); a result of magnitude \<open>2 ^ 1024\<close> or more overflows.
\<close>

definition round_even :: "real \<Rightarrow> int" where
  "round_even t =
     (let f = \<lfloor>t\<rfloor>; d = t - of_int f in
      if d < 1 / 2 then f else if 1 / 2 < d then f + 1 else if even f then f else f + 1)"

definition quantum_exp :: "real \<Rightarrow> int" where
  "quantum_exp y = max (\<lfloor>log 2 \<bar>y\<bar>\<rfloor> - 52) (- 1074)"

definition round_nearest :: "real \<Rightarrow> real" where
  "round_nearest y = of_int (round_even (y / 2 powi quantum_exp y)) * 2 powi quantum_exp y"

datatype pynum = NInt int | NFloat real | PosInf | NegInf | NaN

definition binary64 :: "real \<Rightarrow> pynum" where
  "binary64 y =
     (let r = round_nearest y in
      if 2 ^ 1024 \<le> r then PosInf else if r \<le> - (2 ^ 1024) then NegInf else NFloat r)"

text \<open>The reals that are values of a finite binary64 float.\<close>

definition is_binary64 :: "real \<Rightarrow> bool" where
  "is_binary64 x = (\<bar>x\<bar> < 2 ^ 1024 \<and> round_nearest x = x)"

fun py_number :: "pynum \<Rightarrow> bool" where
  "py_number (NFloat x) = is_binary64 x"
| "py_number n = True"

text \<open>
  \<open>n + c\<close> for a number \<open>n\<close> and an \<open>int\<close> literal \<open>c\<close> that a float holds exactly (the
  code adds 10 and 5): exact for an \<open>int\<close>, rounded for a \<open>float\<close>.
\<close>

fun py_add :: "pynum \<Rightarrow> int \<Rightarrow> pynum" where
  "py_add (NInt i) c = NInt (i + c)"
| "py_add (NFloat x) c = binary64 (x + of_int c)"
| "py_add PosInf c = PosInf"
| "py_add NegInf c = NegInf"
| "py_add NaN c = NaN"

text \<open>
  \<open>x > n\<close> for a finite float \<open>x\<close> and a number \<open>n\<close>; Python compares a float with an
  \<open>int\<close> by their exact values.
\<close>

fun py_gt :: "real \<Rightarrow> pynum \<Rightarrow> bool" where
  "py_gt x (NInt i) = (of_int i < x)"
| "py_gt x (NFloat y) = (y < x)"
| "py_gt x PosInf = False"
| "py_gt x NegInf = True"
| "py_gt x NaN = False"

text \<open>
  Exceptions carry their class and their message. The classes are the ones the handlers of
  the modelled functions tell apart; \<open>socket.gaierror\<close>, \<open>ConnectionRefusedError\<close>,
  \<open>socket.timeout\<close> and \<open>ssl.SSLError\<close> are subclasses of \<open>OSError\<close>. A
  \<open>botocore\<close> \<open>ClientError\<close> also carries \<open>e.response.get("Error", {}).get("Code")\<close>,
  which may be \<open>None\<close>.
\<close>

datatype exc_class =
  GaiError | ConnectionRefused | SocketTimeout | SSLError | OSErrorOther
  | AioClientError | OpenSearchConnectionError | BotoClientError "string option"
  | DockerNotFound | FileNotFoundError | ValueError | TypeError | OverflowError
  | OtherException

datatype exn = Exn exc_class string

fun exc_class_of :: "exn \<Rightarrow> exc_class" where
  "exc_class_of (Exn c m) = c"

fun str_exn :: "exn \<Rightarrow> string" where
  "str_exn (Exn c m) = m"

fun is_OSError :: "exc_class \<Rightarrow> bool" where
  "is_OSError GaiError = True"
| "is_OSError ConnectionRefused = True"
| "is_OSError SocketTimeout = True"
| "is_OSError SSLError = True"
| "is_OSError OSErrorOther = True"
| "is_OSError c = False"

text \<open>What a call into the environment (network, operating system, library) answers.\<close>

datatype 'a outcome = Returns 'a | Raises exn

text \<open>
  The world a worker acts on: the shared state dictionary, the log (one entry per
  \<open>logging\<close> call; the message texts are given in ASCII and without the interpolated
  values) and the trace of the calls made into the environment.
\<close>

datatype log_entry = LogInfo string | LogWarning string | LogError string

datatype effect =
  Sleep real
  | Getaddrinfo string
  | OpenConnection string int bool
  | HttpGet string
  | BulkRequest string
  | DockerPing
  | ContainersGet string

record world =
  shared_state :: "string \<rightharpoonup> pyval"
  logged :: "log_entry list"
  effects :: "effect list"

definition set_state :: "string \<Rightarrow> pyval \<Rightarrow> world \<Rightarrow> world" where
  "set_state k v w = w\<lparr>shared_state := (shared_state w)(k \<mapsto> v)\<rparr>"

definition get_state :: "world \<Rightarrow> string \<Rightarrow> pyval \<Rightarrow> pyval" where
  "get_state w k d = (case shared_state w k of None \<Rightarrow> d | Some v \<Rightarrow> v)"

definition logging :: "log_entry \<Rightarrow> world \<Rightarrow> world" where
  "logging l w = w\<lparr>logged := logged w @ [l]\<rparr>"

definition perform :: "effect \<Rightarrow> world \<Rightarrow> world" where
  "perform x w = w\<lparr>effects := effects w @ [x]\<rparr>"

section \<open>Resource controller (resource_controller.py)\<close>

record resource_controller =
  cpu_limit :: pynum
  ram_limit :: pynum
  sleep_interval :: real
  throttling_level :: int

text \<open>
  The local variable \<open>current_throttling_level\<close> of \<open>_apply_throttling\<close>. The usages
  are the finite floats \<open>psutil\<close> returns; the limits are the numbers the configuration
  holds (the default is the \<open>int\<close> 70).
\<close>

definition current_throttling_level :: "pynum \<Rightarrow> pynum \<Rightarrow> real \<Rightarrow> real \<Rightarrow> int" where
  "current_throttling_level cl rl cpu_usage ram_usage =
     (if py_gt cpu_usage cl \<or> py_gt ram_usage rl then
        (if py_gt cpu_usage (py_add cl 10) \<or> py_gt ram_usage (py_add rl 10) then 3
         else if py_gt cpu_usage (py_add cl 5) \<or> py_gt ram_usage (py_add rl 5) then 2
         else 1)
      else 0)"

definition apply_throttling ::
  "resource_controller \<Rightarrow> real \<Rightarrow> real \<Rightarrow> world \<Rightarrow> resource_controller \<times> world" where
  "apply_throttling self cpu_usage ram_usage w =
     (let lvl = current_throttling_level (cpu_limit self) (ram_limit self) cpu_usage ram_usage;
          self' = self\<lparr>throttling_level := lvl\<rparr>;
          w1 = set_state ''throttling_level'' (PInt lvl) w;
          w2 = (if lvl > 0 then logging (LogWarning ''Regulation activee'') w1
                else logging (LogInfo ''Regulation desactivee'') w1)
      in (self', w2))"

text \<open>
  One pass through the body of the \<open>while True\<close> loop of \<open>run\<close>. The sample is what
  \<open>_get_system_metrics\<close> (two \<open>psutil\<close> calls) answers in this tick. The body has no
  \<open>try\<close>: an exception of the sampling leaves the loop and \<open>run\<close>.
\<close>

fun run_loop ::
  "(real \<times> real) outcome list \<Rightarrow> resource_controller \<Rightarrow> world
     \<Rightarrow> exn option \<times> resource_controller \<times> world" where
  "run_loop [] self w = (None, self, w)"
| "run_loop (Raises e # samples) self w = (Some e, self, w)"
| "run_loop (Returns (cpu_usage, ram_usage) # samples) self w =
     (let w1 = set_state ''cpu_usage'' (PFloat cpu_usage) w;
          w2 = set_state ''ram_usage'' (PFloat ram_usage) w1;
          (self', w3) = apply_throttling self cpu_usage ram_usage w2;
          w4 = perform (Sleep (sleep_interval self')) w3
      in run_loop samples self' w4)"

text \<open>
  \<open>run\<close>, for as many ticks as there are samples: \<open>None\<close> when the loop is still
  running after them, \<open>Some e\<close> when the exception \<open>e\<close> has left \<open>run\<close>.
\<close>

definition run ::
  "(real \<times> real) outcome list \<Rightarrow> resource_controller \<Rightarrow> world
     \<Rightarrow> exn option \<times> resource_controller \<times> world" where
  "run samples self w =
     run_loop samples self (logging (LogInfo ''Processus de Controle / Ressources demarre.'') w)"

text \<open>
  The throttling state machine as the specification writes it (section 4.3), in the
  arithmetic of the program.
\<close>

definition spec_level :: "pynum \<Rightarrow> pynum \<Rightarrow> real \<Rightarrow> real \<Rightarrow> int" where
  "spec_level cl rl cpu ram =
     (if py_gt cpu (py_add cl 10) \<or> py_gt ram (py_add rl 10) then 3
      else if py_gt cpu (py_add cl 5) \<or> py_gt ram (py_add rl 5) then 2
      else if py_gt cpu cl \<or> py_gt ram rl then 1
      else 0)"

definition rc70 :: resource_controller where
  "rc70 = \<lparr>cpu_limit = NInt 70, ram_limit = NInt 70, sleep_interval = 1, throttling_level = 0\<rparr>"

text \<open>
  The floats that Python writes \<open>54.4\<close> and \<open>64.4\<close>, and a controller whose limits are
  the float \<open>54.4\<close>.
\<close>

definition float_54_4 :: real where
  "float_54_4 = 7656119366529843 / 2 ^ 47"

definition float_64_4 :: real where
  "float_64_4 = 4531747125041562 / 2 ^ 46"

definition rc_54_4 :: resource_controller where
  "rc_54_4 = \<lparr>cpu_limit = NFloat float_54_4, ram_limit = NFloat float_54_4,
              sleep_interval = 1, throttling_level = 0\<rparr>"

definition world0 :: world where
  "world0 = \<lparr>shared_state = Map.empty, logged = [], effects = []\<rparr>"

section \<open>Configuration manager (config_manager.py)\<close>

text \<open>The document \<open>yaml.safe_load\<close> returns; a mapping is read with \<open>map_of\<close>.\<close>

datatype yaml =
  YNull | YBool bool | YInt int | YFloat real | YStr string
  | YList "yaml list" | YDict "(string \<times> yaml) list"

text \<open>
  Python's \<open>str.split(sep)\<close> for a separator that is not empty (every call of the
  modelled code passes a literal one): the pieces between the occurrences of \<open>sep\<close>,
  read from the left; the result is never empty.
\<close>

fun split_aux :: "string \<Rightarrow> string \<Rightarrow> string \<Rightarrow> string list" where
  "split_aux sep acc [] = [rev acc]"
| "split_aux sep acc (c # cs) =
     (if sep \<noteq> [] \<and> take (length sep) (c # cs) = sep
      then rev acc # split_aux sep [] (drop (length sep - 1) cs)
      else split_aux sep (c # acc) cs)"

definition split_str :: "string \<Rightarrow> string \<Rightarrow> string list" where
  "split_str sep s = split_aux sep [] s"

record config_manager =
  config_path :: string
  config :: yaml

text \<open>
  \<open>_load_config\<close>. The file system answers for a path: \<open>None\<close> when
  \<open>os.path.exists\<close> is false, else what opening and reading the file gives. The YAML
  parser \<open>safe_load\<close> is a parameter.
\<close>

definition load_config ::
  "(string \<Rightarrow> yaml outcome) \<Rightarrow> (string \<rightharpoonup> string outcome) \<Rightarrow> config_manager \<Rightarrow> yaml outcome" where
  "load_config safe_load fs self =
     (case fs (config_path self) of
        None \<Rightarrow> Raises (Exn FileNotFoundError
                  (''Le fichier de configuration n'' @ ''a pas ete trouve a : '' @ config_path self))
      | Some (Raises e) \<Rightarrow> Raises e
      | Some (Returns content) \<Rightarrow> safe_load content)"

fun get_loop :: "string list \<Rightarrow> yaml \<Rightarrow> yaml \<Rightarrow> yaml" where
  "get_loop [] val dflt = val"
| "get_loop (k # ks) (YDict kvs) dflt =
     (case map_of kvs k of Some v \<Rightarrow> get_loop ks v dflt | None \<Rightarrow> dflt)"
| "get_loop (k # ks) val dflt = dflt"

definition get :: "config_manager \<Rightarrow> string \<Rightarrow> yaml \<Rightarrow> yaml" where
  "get self key dflt = get_loop (split_str ''.'' key) (config self) dflt"

text \<open>
  \<open>reload_config\<close>, with the lines printed so far. The assignment to \<open>self.config\<close>
  happens only once \<open>_load_config\<close> has returned.
\<close>

definition reload_config ::
  "(string \<Rightarrow> yaml outcome) \<Rightarrow> (string \<rightharpoonup> string outcome) \<Rightarrow> config_manager \<Rightarrow> string list
     \<Rightarrow> exn option \<times> config_manager \<times> string list" where
  "reload_config safe_load fs self stdout =
     (case load_config safe_load fs self of
        Raises e \<Rightarrow> (Some e, self, stdout)
      | Returns doc \<Rightarrow> (None, self\<lparr>config := doc\<rparr>, stdout @ [''Configuration rechargee.'']))"

text \<open>A parser and two file systems for the concrete runs below.\<close>

definition toy_safe_load :: "string \<Rightarrow> yaml outcome" where
  "toy_safe_load s =
     (if s = ''new_key: 5'' then Returns (YDict [(''new_key'', YInt 5)])
      else Raises (Exn OtherException ''YAMLError''))"

definition toy_cm :: config_manager where
  "toy_cm = \<lparr>config_path = ''config.yaml'',
             config = YDict [(''test_section'', YDict [(''key2'', YInt 123)])]\<rparr>"

definition toy_fs :: "string \<rightharpoonup> string outcome" where
  "toy_fs = [''config.yaml'' \<mapsto> Returns ''new_key: 5'']"

section \<open>Connectivity checks (connectivity_async.py)\<close>

record connectivity_async =
  cfg :: config_manager
  opensearch_endpoint :: "string option"
  redis_host :: string
  redis_port :: int
  max_retries :: nat
  initial_backoff :: nat

text \<open>
  The three statements that end a failed pass of the loop of \<open>_retry_operation\<close>: the
  warning and the sleep of \<open>sleep_time\<close> seconds.
\<close>

definition backoff_wait :: "nat \<Rightarrow> world \<Rightarrow> world" where
  "backoff_wait sleep_time w =
     perform (Sleep (real sleep_time)) (logging (LogWarning ''Operation echouee. Reessai'') w)"

text \<open>
  \<open>_retry_operation\<close>. The operation \<open>func\<close> takes the number of calls of it made before
  in this invocation (which is \<open>retries\<close>), so that the environment can answer each call
  differently, and the world; it returns a value (\<open>Inr\<close>) or raises (\<open>Inl\<close>). The result
  \<open>Inr None\<close> is Python's implicit \<open>None\<close> when the loop ends without a call.
\<close>

function retry_loop ::
  "nat \<Rightarrow> nat \<Rightarrow> (nat \<Rightarrow> world \<Rightarrow> (exn + 'a) \<times> world) \<Rightarrow> nat \<Rightarrow> world
     \<Rightarrow> (exn + 'a option) \<times> world" where
  "retry_loop maxr ib func retries w =
     (if retries < maxr then
        (case func retries w of
           (Inr v, w') \<Rightarrow> (Inr (Some v), w')
         | (Inl e, w') \<Rightarrow>
             (if retries + 1 \<ge> maxr then (Inl e, w')
              else retry_loop maxr ib func (retries + 1)
                     (backoff_wait (ib * 2 ^ (retries + 1)) w')))
      else (Inr None, w))"
  by pat_completeness auto
termination
  by (relation "measure (\<lambda>(maxr, ib, func, retries, w). maxr - retries)") auto

declare retry_loop.simps [simp del]

definition retry_operation ::
  "connectivity_async \<Rightarrow> (nat \<Rightarrow> world \<Rightarrow> (exn + 'a) \<times> world) \<Rightarrow> world
     \<Rightarrow> (exn + 'a option) \<times> world" where
  "retry_operation self func w = retry_loop (max_retries self) (initial_backoff self) func 0 w"

text \<open>
  The four checks. Each takes what its call into the network answers: the call returns
  (for the HTTP request, with the status of the response) or raises.
\<close>

definition check_dns_resolution ::
  "string \<Rightarrow> unit outcome \<Rightarrow> world \<Rightarrow> (exn + bool) \<times> world" where
  "check_dns_resolution hostname answer w =
     (let w0 = perform (Getaddrinfo hostname) w in
      case answer of
        Returns u \<Rightarrow> (Inr True, logging (LogInfo ''Resolution DNS reussie'') w0)
      | Raises e \<Rightarrow>
          (if exc_class_of e = GaiError
           then (Inl e, logging (LogError ''Echec de la resolution DNS'') w0)
           else (Inl e, w0)))"

definition check_tls_handshake ::
  "string \<Rightarrow> int \<Rightarrow> unit outcome \<Rightarrow> world \<Rightarrow> (exn + bool) \<times> world" where
  "check_tls_handshake hostname port answer w =
     (let w0 = perform (OpenConnection hostname port True) w in
      case answer of
        Returns u \<Rightarrow> (Inr True, logging (LogInfo ''Negociation TLS reussie'') w0)
      | Raises e \<Rightarrow>
          (if is_OSError (exc_class_of e)
           then (Inl e, logging (LogError ''Echec de la negociation TLS'') w0)
           else (Inl e, w0)))"

function str_nat :: "nat \<Rightarrow> string" where
  "str_nat n =
     (if n < 10 then [''0123456789'' ! n]
      else str_nat (n div 10) @ [''0123456789'' ! (n mod 10)])"
  by pat_completeness auto
termination
  by (relation "measure id") auto

declare str_nat.simps [simp del]

definition rstrip :: "char \<Rightarrow> string \<Rightarrow> string" where
  "rstrip c s = rev (dropWhile (\<lambda>x. x = c) (rev s))"

definition check_opensearch_bulk_test ::
  "connectivity_async \<Rightarrow> nat outcome \<Rightarrow> world \<Rightarrow> (exn + bool) \<times> world" where
  "check_opensearch_bulk_test self answer w =
     (case opensearch_endpoint self of
        None \<Rightarrow>
          (Inr False, set_state ''aws_ready'' (PBool False)
                        (logging (LogWarning ''Endpoint OpenSearch non configure'') w))
      | Some endpoint \<Rightarrow>
          (if endpoint = [] then
             (Inr False, set_state ''aws_ready'' (PBool False)
                           (logging (LogWarning ''Endpoint OpenSearch non configure'') w))
           else
             (let opensearch_url = rstrip CHR ''/'' endpoint @ ''/_cluster/health'';
                  w0 = perform (HttpGet opensearch_url) w in
              case answer of
                Returns status \<Rightarrow>
                  (if status = 200 then
                     (Inr True, set_state ''aws_ready'' (PBool True)
                                  (logging (LogInfo ''Test OpenSearch reussi'') w0))
                   else
                     (Inr False,
                      set_state ''last_error''
                        (PStr (''OpenSearch health check failed: '' @ str_nat status))
                        (set_state ''aws_ready'' (PBool False)
                          (logging (LogWarning ''Test OpenSearch echoue'') w0))))
              | Raises e \<Rightarrow>
                  (if exc_class_of e = AioClientError then
                     (Inl e,
                      set_state ''last_error'' (PStr (''OpenSearch HTTP client error: '' @ str_exn e))
                        (set_state ''aws_ready'' (PBool False)
                          (logging (LogError ''Erreur client HTTP lors du test OpenSearch'') w0)))
                   else
                     (Inl e,
                      set_state ''last_error'' (PStr (''OpenSearch test error: '' @ str_exn e))
                        (set_state ''aws_ready'' (PBool False)
                          (logging (LogError ''Erreur inattendue lors du test OpenSearch'') w0)))))))"

definition check_redis_connectivity ::
  "connectivity_async \<Rightarrow> unit outcome \<Rightarrow> world \<Rightarrow> (exn + bool) \<times> world" where
  "check_redis_connectivity self answer w =
     (let w0 = perform (OpenConnection (redis_host self) (redis_port self) False) w in
      case answer of
        Returns u \<Rightarrow>
          (Inr True, set_state ''redis_ready'' (PBool True)
                       (logging (LogInfo ''Connectivite Redis reussie'') w0))
      | Raises e \<Rightarrow>
          (if is_OSError (exc_class_of e) then
             (Inl e,
              set_state ''last_error'' (PStr (''Redis connectivity error: '' @ str_exn e))
                (set_state ''redis_ready'' (PBool False)
                  (logging (LogError ''Echec de la connectivite Redis'') w0)))
           else (Inl e, w0)))"

text \<open>
  What the network answers in one cycle, for each check and each call of it in the cycle.
\<close>

record cycle_env =
  dns_answers :: "nat \<Rightarrow> unit outcome"
  tls_answers :: "nat \<Rightarrow> unit outcome"
  http_answers :: "nat \<Rightarrow> nat outcome"
  redis_answers :: "nat \<Rightarrow> unit outcome"

text \<open>
  \<open>asyncio.gather(*tasks, return_exceptions=True)\<close>: every task runs to its end, whatever
  the others do, and the results come in the order of the tasks. The tasks are run here
  one after the other; the event loop interleaves them at their \<open>await\<close>s, which changes
  the order of their writes but not their results.
\<close>

fun gather :: "(world \<Rightarrow> 'r \<times> world) list \<Rightarrow> world \<Rightarrow> 'r list \<times> world" where
  "gather [] w = ([], w)"
| "gather (t # ts) w =
     (let (r, w1) = t w; (rs, w2) = gather ts w1 in (r # rs, w2))"

text \<open>\<open>endpoint.split('//')[-1].split('/')[0].split(':')[0]\<close>\<close>

definition opensearch_hostname_of :: "string \<Rightarrow> string" where
  "opensearch_hostname_of endpoint =
     hd (split_str '':'' (hd (split_str ''/'' (last (split_str ''//'' endpoint)))))"

text \<open>\<open>all(r is True for r in results if not isinstance(r, Exception))\<close>\<close>

definition pipeline_ok_of :: "(exn + bool option) list \<Rightarrow> bool" where
  "pipeline_ok_of results =
     list_all (\<lambda>r. r = Inr (Some True)) (filter (\<lambda>r. \<not> isl r) results)"

text \<open>\<open>isinstance(interval, (int, float))\<close>; \<open>bool\<close> is a subclass of \<open>int\<close>.\<close>

fun number_of :: "yaml \<Rightarrow> real option" where
  "number_of (YInt i) = Some (real_of_int i)"
| "number_of (YFloat r) = Some r"
| "number_of (YBool b) = Some (if b then 1 else 0)"
| "number_of y = None"

text \<open>
  One pass through the body of the \<open>while True\<close> loop of \<open>run_connectivity_checks\<close>.
  With an endpoint that is a string or \<open>None\<close> nothing in the \<open>try\<close> block raises
  (\<open>gather\<close> returns the exceptions of the tasks as results), so its handler is never
  entered.
\<close>

definition connectivity_cycle :: "connectivity_async \<Rightarrow> cycle_env \<Rightarrow> world \<Rightarrow> world" where
  "connectivity_cycle self env w =
     (let opensearch_hostname =
            (case opensearch_endpoint self of
               None \<Rightarrow> None
             | Some endpoint \<Rightarrow>
                 if endpoint \<noteq> [] then Some (opensearch_hostname_of endpoint) else None);
          tasks =
            (case opensearch_hostname of
               None \<Rightarrow> []
             | Some h \<Rightarrow>
                 if h \<noteq> [] then
                   [retry_operation self (\<lambda>i. check_dns_resolution h (dns_answers env i)),
                    retry_operation self (\<lambda>i. check_tls_handshake h 443 (tls_answers env i)),
                    retry_operation self (\<lambda>i. check_opensearch_bulk_test self (http_answers env i))]
                 else [])
            @ [retry_operation self (\<lambda>i. check_redis_connectivity self (redis_answers env i))];
          (results, w1) = gather tasks w;
          pipeline_ok = pipeline_ok_of results;
          w2 = set_state ''pipeline_ok'' (PBool pipeline_ok) w1;
          w3 = (if \<not> pipeline_ok
                then logging (LogWarning ''Certaines verifications de connectivite ont echoue.'') w2
                else logging (LogInfo ''Toutes les verifications de connectivite sont OK.'') w2);
          interval = get (cfg self) ''connectivity_check_interval'' (YInt 10)
      in case number_of interval of
           None \<Rightarrow>
             perform (Sleep 10)
               (logging (LogWarning ''connectivity_check_interval n est pas un nombre'') w3)
         | Some t \<Rightarrow> perform (Sleep t) w3)"

text \<open>\<open>run_connectivity_checks\<close>, for as many cycles as there are environments.\<close>

definition run_connectivity_checks ::
  "connectivity_async \<Rightarrow> cycle_env list \<Rightarrow> world \<Rightarrow> world" where
  "run_connectivity_checks self envs w =
     foldl (\<lambda>w' env. connectivity_cycle self env w') 
       (logging (LogInfo ''Processus de Connectivite (ASYNC) demarre.'') w) envs"

text \<open>
  For the statement about the executor: starting with call number \<open>i\<close> in world \<open>w\<close>,
  the calls of \<open>func\<close> fail one after the other, once for every element of the list, and
  after each failure the warning is logged and the element is slept; the result is the
  world in which the next call is made.
\<close>

primrec after_failures ::
  "(nat \<Rightarrow> world \<Rightarrow> (exn + 'a) \<times> world) \<Rightarrow> nat list \<Rightarrow> nat \<Rightarrow> world \<Rightarrow> world option" where
  "after_failures func [] i w = Some w"
| "after_failures func (t # ts) i w =
     (case func i w of
        (Inl e, w') \<Rightarrow> after_failures func ts (Suc i) (backoff_wait t w')
      | (Inr v, w') \<Rightarrow> None)"

text \<open>The connectivity checker as \<open>__init__\<close> builds it, and environments for concrete cycles.\<close>

definition ca0 :: connectivity_async where
  "ca0 = \<lparr>cfg = \<lparr>config_path = ''config.yaml'', config = YDict [(''connectivity_check_interval'', YInt 5)]\<rparr>,
          opensearch_endpoint = Some ''https://search.example.com'',
          redis_host = ''localhost'', redis_port = 6379,
          max_retries = 5, initial_backoff = 1\<rparr>"

definition all_up :: cycle_env where
  "all_up = \<lparr>dns_answers = (\<lambda>i. Returns ()), tls_answers = (\<lambda>i. Returns ()),
             http_answers = (\<lambda>i. Returns 200), redis_answers = (\<lambda>i. Returns ())\<rparr>"

definition tls_down :: cycle_env where
  "tls_down = all_up\<lparr>tls_answers := (\<lambda>i. Raises (Exn SSLError ''handshake failure''))\<rparr>"

definition dns_down_twice :: "nat \<Rightarrow> unit outcome" where
  "dns_down_twice i = (if i < 2 then Raises (Exn GaiError ''Name or service not known'') else Returns ())"

definition dns_down :: "nat \<Rightarrow> unit outcome" where
  "dns_down i = Raises (Exn GaiError (''failure '' @ str_nat i))"

section \<open>Container stack health (docker_manager.py)\<close>

text \<open>
  What the Docker daemon answers: to \<open>client.ping()\<close>, and to \<open>client.containers.get\<close>
  for a container name (the status of the container, or an exception).
\<close>

record docker_env =
  ping :: "unit outcome"
  containers :: "string \<Rightarrow> string outcome"

definition check_docker_daemon :: "docker_env \<Rightarrow> world \<Rightarrow> bool \<times> world" where
  "check_docker_daemon env w =
     (let w0 = perform DockerPing w in
      case ping env of
        Returns u \<Rightarrow> (True, logging (LogInfo ''Le demon Docker est en cours d execution.'') w0)
      | Raises e \<Rightarrow>
          (False,
           set_state ''last_error'' (PStr (''Docker daemon not accessible: '' @ str_exn e))
             (logging (LogError ''Le demon Docker n est pas accessible'') w0)))"

definition container_name :: "string \<Rightarrow> string" where
  "container_name service_name = ''oi-'' @ service_name @ ''-1''"

text \<open>
  The \<open>for\<close> loop of \<open>check_stack_health\<close>; the result is \<open>all_healthy\<close>. Each of the
  three ways out of a pass that found a problem ends the loop with \<open>break\<close>.
\<close>

fun check_services :: "docker_env \<Rightarrow> string list \<Rightarrow> world \<Rightarrow> bool \<times> world" where
  "check_services env [] w = (True, w)"
| "check_services env (service_name # rest) w =
     (let w0 = perform (ContainersGet (container_name service_name)) w in
      case containers env (container_name service_name) of
        Returns status \<Rightarrow>
          (if status \<noteq> ''running''
           then (False, logging (LogWarning ''Le service Docker n est pas en cours d execution'') w0)
           else check_services env rest
                  (logging (LogInfo ''Le service Docker est en cours d execution'') w0))
      | Raises e \<Rightarrow>
          (if exc_class_of e = DockerNotFound
           then (False, logging (LogWarning ''Le conteneur du service Docker n a pas ete trouve'') w0)
           else (False, logging (LogError ''Erreur lors de la verification du service Docker'') w0)))"

text \<open>
  \<open>check_stack_health\<close> for a list of required services. Every exception of the loop is
  caught inside the loop, so the outer handler is never entered.
\<close>

definition check_stack_health_of :: "string list \<Rightarrow> docker_env \<Rightarrow> world \<Rightarrow> bool \<times> world" where
  "check_stack_health_of required_services env w =
     (case check_docker_daemon env w of
        (False, w1) \<Rightarrow> (False, w1)
      | (True, w1) \<Rightarrow>
          (let (all_healthy, w2) = check_services env required_services w1;
               w3 = set_state ''docker_healthy'' (PBool all_healthy) w2;
               w4 = (if \<not> all_healthy
                     then set_state ''last_error'' (PStr ''Docker stack not healthy.'') w3
                     else w3)
           in (all_healthy, w4)))"

definition check_stack_health :: "docker_env \<Rightarrow> world \<Rightarrow> bool \<times> world" where
  "check_stack_health env w =
     check_stack_health_of [''vector'', ''redis'', ''prometheus'', ''grafana''] env w"

text \<open>For the statements: a service whose container is found with status \<open>running\<close>.\<close>

definition is_running :: "docker_env \<Rightarrow> string \<Rightarrow> bool" where
  "is_running env service_name = (containers env (container_name service_name) = Returns ''running'')"

definition redis_exited :: docker_env where
  "redis_exited =
     \<lparr>ping = Returns (),
      containers = (\<lambda>n. if n = ''oi-redis-1'' then Returns ''exited'' else Returns ''running'')\<rparr>"

section \<open>Log shipper health (vector_manager.py)\<close>

definition check_vector_health :: "world \<Rightarrow> bool \<times> world" where
  "check_vector_health w =
     (if truthy (get_state w ''docker_healthy'' (PBool False)) then
        (True, set_state ''vector_healthy'' (PBool True)
                 (logging (LogInfo ''Le conteneur Vector est sain (selon DockerManager).'') w))
      else
        (False, set_state ''last_error'' (PStr ''Vector container not healthy.'')
                  (set_state ''vector_healthy'' (PBool False)
                    (logging (LogWarning ''Le conteneur Vector n est pas sain.'') w))))"

section \<open>Metrics exporter (metrics_server.py)\<close>

record metrics_server =
  port :: int
  cpu_usage_gauge :: real
  ram_usage_gauge :: real
  redis_queue_depth_gauge :: real
  vector_health_gauge :: real
  ingestion_rate_counter :: real
  error_counter :: real
  aws_ready_gauge :: real
  redis_ready_gauge :: real
  pipeline_ok_gauge :: real
  throttling_level_gauge :: real

text \<open>
  \<open>Gauge.set(value)\<close> stores \<open>float(value)\<close>. An \<open>int\<close> is rounded to the nearest
  float, and one too large for a float raises. Python's parser of a string as a float is a
  parameter.
\<close>

fun py_float :: "(string \<Rightarrow> real option) \<Rightarrow> pyval \<Rightarrow> real outcome" where
  "py_float float_of_str PNone = Raises (Exn TypeError ''float() argument must be a string or a real number'')"
| "py_float float_of_str (PBool b) = Returns (if b then 1 else 0)"
| "py_float float_of_str (PInt i) =
     (case binary64 (of_int i) of
        NFloat r \<Rightarrow> Returns r
      | n \<Rightarrow> Raises (Exn OverflowError ''int too large to convert to float''))"
| "py_float float_of_str (PFloat r) = Returns r"
| "py_float float_of_str (PStr s) =
     (case float_of_str s of
        Some r \<Rightarrow> Returns r
      | None \<Rightarrow> Raises (Exn ValueError ''could not convert string to float''))"

text \<open>
  One statement \<open>self.g.set(value)\<close> of \<open>_update_metrics\<close>, after the statements before
  it: when one of them has raised, this one is not run.
\<close>

definition gauge_set ::
  "(string \<Rightarrow> real option) \<Rightarrow> (real \<Rightarrow> metrics_server \<Rightarrow> metrics_server) \<Rightarrow> pyval
     \<Rightarrow> exn option \<times> metrics_server \<Rightarrow> exn option \<times> metrics_server" where
  "gauge_set float_of_str assign v st =
     (case st of
        (Some e, self) \<Rightarrow> (Some e, self)
      | (None, self) \<Rightarrow>
          (case py_float float_of_str v of
             Returns x \<Rightarrow> (None, assign x self)
           | Raises e \<Rightarrow> (Some e, self)))"

definition one_if :: "pyval \<Rightarrow> pyval" where
  "one_if v = PInt (if truthy v then 1 else 0)"

definition update_metrics ::
  "(string \<Rightarrow> real option) \<Rightarrow> metrics_server \<Rightarrow> world \<Rightarrow> exn option \<times> metrics_server \<times> world" where
  "update_metrics float_of_str self w =
     (let s1 = gauge_set float_of_str (\<lambda>x m. m\<lparr>cpu_usage_gauge := x\<rparr>)
                 (get_state w ''cpu_usage'' (PFloat 0)) (None, self);
          s2 = gauge_set float_of_str (\<lambda>x m. m\<lparr>ram_usage_gauge := x\<rparr>)
                 (get_state w ''ram_usage'' (PFloat 0)) s1;
          s3 = gauge_set float_of_str (\<lambda>x m. m\<lparr>redis_queue_depth_gauge := x\<rparr>)
                 (get_state w ''redis_queue_depth'' (PInt 0)) s2;
          s4 = gauge_set float_of_str (\<lambda>x m. m\<lparr>vector_health_gauge := x\<rparr>)
                 (one_if (get_state w ''vector_healthy'' (PBool False))) s3;
          s5 = gauge_set float_of_str (\<lambda>x m. m\<lparr>aws_ready_gauge := x\<rparr>)
                 (one_if (get_state w ''aws_ready'' (PBool False))) s4;
          s6 = gauge_set float_of_str (\<lambda>x m. m\<lparr>redis_ready_gauge := x\<rparr>)
                 (one_if (get_state w ''redis_ready'' (PBool False))) s5;
          s7 = gauge_set float_of_str (\<lambda>x m. m\<lparr>pipeline_ok_gauge := x\<rparr>)
                 (one_if (get_state w ''pipeline_ok'' (PBool False))) s6;
          s8 = gauge_set float_of_str (\<lambda>x m. m\<lparr>throttling_level_gauge := x\<rparr>)
                 (get_state w ''throttling_level'' (PInt 0)) s7
      in (fst s8, snd s8, w))"

text \<open>
  The loop of the exporter's \<open>run\<close>, for a number of cycles, with no other worker
  writing in between: \<open>None\<close> when the loop is still running after them, \<open>Some e\<close> when
  the exception \<open>e\<close> has left \<open>run\<close> (the loop has no \<open>try\<close>).
\<close>

fun metrics_loop ::
  "(string \<Rightarrow> real option) \<Rightarrow> nat \<Rightarrow> metrics_server \<Rightarrow> world
     \<Rightarrow> exn option \<times> metrics_server \<times> world" where
  "metrics_loop float_of_str 0 self w = (None, self, w)"
| "metrics_loop float_of_str (Suc n) self w =
     (case update_metrics float_of_str self w of
        (Some e, self', w') \<Rightarrow> (Some e, self', w')
      | (None, self', w') \<Rightarrow> metrics_loop float_of_str n self' (perform (Sleep 5) w'))"

text \<open>\<open>start_http_server\<close> returns or raises (the port may be taken).\<close>

definition metrics_run ::
  "(string \<Rightarrow> real option) \<Rightarrow> unit outcome \<Rightarrow> nat \<Rightarrow> metrics_server \<Rightarrow> world
     \<Rightarrow> exn option \<times> metrics_server \<times> world" where
  "metrics_run float_of_str server n self w =
     (let w0 = logging (LogInfo ''Processus de Surveillance / Metriques demarre'') w in
      case server of
        Raises e \<Rightarrow> (Some e, self, w0)
      | Returns u \<Rightarrow> metrics_loop float_of_str n self w0)"

definition ms0 :: metrics_server where
  "ms0 = \<lparr>port = 9100, cpu_usage_gauge = 0, ram_usage_gauge = 0, redis_queue_depth_gauge = 0,
          vector_health_gauge = 0, ingestion_rate_counter = 0, error_counter = 0,
          aws_ready_gauge = 0, redis_ready_gauge = 0, pipeline_ok_gauge = 0,
          throttling_level_gauge = 0\<rparr>"

definition ms_ready :: metrics_server where
  "ms_ready = ms0\<lparr>vector_health_gauge := 1, aws_ready_gauge := 1, redis_ready_gauge := 1,
                  pipeline_ok_gauge := 1\<rparr>"

section \<open>Bulk sending (aws_manager.py)\<close>

record aws_manager =
  aws_cfg :: config_manager
  aws_opensearch_endpoint :: "string option"

text \<open>
  An element of the \<open>logs\<close> argument: a dictionary, given by its \<open>json.dumps\<close>, or a
  value of another type.
\<close>

datatype log_item = DictLog string | OtherLog pyval

fun is_dict :: "log_item \<Rightarrow> bool" where
  "is_dict (DictLog j) = True"
| "is_dict (OtherLog v) = False"

text \<open>
  The response of \<open>client.bulk\<close>, as far as the code looks at it: whether it is empty
  (falsy), whether \<open>response.get('errors')\<close> is truthy, and its \<open>json.dumps\<close>.
\<close>

record bulk_response =
  response_empty :: bool
  response_errors :: bool
  response_json :: string

text \<open>
  What one pass of the sending loop meets: an exception while the credentials and the
  client are set up, or the answer of \<open>client.bulk\<close>.
\<close>

datatype attempt_answer = SetupRaises exn | BulkAnswer "bulk_response outcome"

record aws_env =
  strftime :: "string \<Rightarrow> string"
  dumps_action :: "string \<Rightarrow> string"
  bulk_answers :: "nat \<Rightarrow> attempt_answer"

text \<open>
  The \<open>for\<close> loop that fills \<open>bulk_data\<close>; \<open>dumps_action env n\<close> is the \<open>json.dumps\<close> of
  the action line for the index \<open>n\<close>.
\<close>

fun bulk_data_loop ::
  "aws_manager \<Rightarrow> aws_env \<Rightarrow> string \<Rightarrow> log_item list \<Rightarrow> string list \<Rightarrow> world
     \<Rightarrow> (exn + string list) \<times> world" where
  "bulk_data_loop self env index_name_prefix [] bulk_data w = (Inr bulk_data, w)"
| "bulk_data_loop self env index_name_prefix (DictLog j # logs) bulk_data w =
     (case get (aws_cfg self) ''vector.index_pattern'' (YStr (index_name_prefix @ ''%Y.%m.%d'')) of
        YStr index_pattern \<Rightarrow>
          bulk_data_loop self env index_name_prefix logs
            (bulk_data @ [dumps_action env (strftime env index_pattern), j]) w
      | y \<Rightarrow> (Inl (Exn TypeError ''strftime() argument 1 must be str''), w))"
| "bulk_data_loop self env index_name_prefix (OtherLog v # logs) bulk_data w =
     bulk_data_loop self env index_name_prefix logs bulk_data
       (logging (LogWarning ''Log ignore car non au format dictionnaire'') w)"

fun join_str :: "string \<Rightarrow> string list \<Rightarrow> string" where
  "join_str sep [] = []"
| "join_str sep [x] = x"
| "join_str sep (x # y # ys) = x @ sep @ join_str sep (y # ys)"

text \<open>The three handlers of the sending loop, told apart by the class of the exception.\<close>

definition handle_send_error :: "exn \<Rightarrow> world \<Rightarrow> world" where
  "handle_send_error e w =
     (case exc_class_of e of
        OpenSearchConnectionError \<Rightarrow>
          set_state ''last_error'' (PStr (''OpenSearch connection error: '' @ str_exn e))
            (set_state ''aws_ready'' (PBool False)
              (logging (LogError ''Erreur de connexion OpenSearch'') w))
      | BotoClientError error_code \<Rightarrow>
          set_state ''last_error''
            (PStr (''AWS ClientError: '' @ (case error_code of None \<Rightarrow> ''None'' | Some c \<Rightarrow> c)))
            (set_state ''aws_ready'' (PBool False)
              (logging (LogError ''Erreur Client AWS lors de l envoi a OpenSearch'') w))
      | c \<Rightarrow>
          set_state ''last_error'' (PStr (''OpenSearch send error: '' @ str_exn e))
            (set_state ''aws_ready'' (PBool False)
              (logging (LogError ''Erreur inattendue lors de l envoi a OpenSearch'') w)))"

text \<open>
  The \<open>try\<close> statement of one pass: \<open>Some b\<close> when it returns \<open>b\<close> from the function,
  \<open>None\<close> when a handler has run and the pass goes on.
\<close>

definition bulk_attempt :: "aws_env \<Rightarrow> string \<Rightarrow> nat \<Rightarrow> world \<Rightarrow> bool option \<times> world" where
  "bulk_attempt env payload retries w =
     (case bulk_answers env retries of
        SetupRaises e \<Rightarrow> (None, handle_send_error e w)
      | BulkAnswer answer \<Rightarrow>
          (let w0 = perform (BulkRequest payload) (logging (LogInfo ''Tentative d envoi de logs a OpenSearch'') w) in
           case answer of
             Returns response \<Rightarrow>
               (if \<not> response_empty response \<and> \<not> response_errors response then
                  (Some True, logging (LogInfo ''Logs envoyes avec succes a OpenSearch.'')
                                (set_state ''aws_ready'' (PBool True) w0))
                else
                  (Some False,
                   set_state ''last_error'' (PStr (''OpenSearch bulk error: '' @ response_json response))
                     (set_state ''aws_ready'' (PBool False)
                       (logging (LogError ''Erreur lors de l envoi en masse a OpenSearch'') w0))))
           | Raises e \<Rightarrow> (None, handle_send_error e w0)))"

function send_loop :: "aws_env \<Rightarrow> string \<Rightarrow> nat \<Rightarrow> nat \<Rightarrow> nat \<Rightarrow> world \<Rightarrow> bool \<times> world" where
  "send_loop env payload maxr ib retries w =
     (if retries < maxr then
        (case bulk_attempt env payload retries w of
           (Some b, w1) \<Rightarrow> (b, w1)
         | (None, w1) \<Rightarrow>
             send_loop env payload maxr ib (retries + 1)
               (if retries + 1 < maxr
                then perform (Sleep (real (ib * 2 ^ (retries + 1))))
                       (logging (LogWarning ''Reessai'') w1)
                else w1))
      else (False, logging (LogError ''Echec de l envoi de logs a OpenSearch'') w))"
  by pat_completeness auto
termination
  by (relation "measure (\<lambda>(env, payload, maxr, ib, retries, w). maxr - retries)") auto

declare send_loop.simps [simp del]

text \<open>
  \<open>send_bulk_to_opensearch\<close>; \<open>maxr\<close> and \<open>ib\<close> are its parameters \<open>max_retries\<close> and
  \<open>initial_backoff\<close>.
\<close>

definition send_bulk_to_opensearch ::
  "aws_manager \<Rightarrow> aws_env \<Rightarrow> log_item list \<Rightarrow> string \<Rightarrow> nat \<Rightarrow> nat \<Rightarrow> world
     \<Rightarrow> (exn + bool) \<times> world" where
  "send_bulk_to_opensearch self env logs index_name_prefix maxr ib w =
     (let not_configured =
            (Inr False,
             set_state ''last_error'' (PStr ''OpenSearch endpoint not configured.'')
               (set_state ''aws_ready'' (PBool False)
                 (logging (LogError ''Endpoint OpenSearch non disponible'') w)))
      in case aws_opensearch_endpoint self of
           None \<Rightarrow> not_configured
         | Some endpoint \<Rightarrow>
             if endpoint = [] then not_configured
             else if logs = [] then (Inr True, w)
             else
               (case bulk_data_loop self env index_name_prefix logs [] w of
                  (Inl e, w1) \<Rightarrow> (Inl e, w1)
                | (Inr bulk_data, w1) \<Rightarrow>
                    if bulk_data = [] then (Inr True, w1)
                    else
                      (let payload = join_str [CHR 0x0A] bulk_data @ [CHR 0x0A] in
                       case send_loop env payload maxr ib 0 w1 of
                         (b, w2) \<Rightarrow> (Inr b, w2))))"

definition aws0 :: aws_manager where
  "aws0 = \<lparr>aws_cfg = \<lparr>config_path = ''config.yaml'', config = YDict []\<rparr>,
           aws_opensearch_endpoint = Some ''https://search.example.com''\<rparr>"

definition aws_env0 :: aws_env where
  "aws_env0 = \<lparr>strftime = (\<lambda>p. ''suricata-2026.11.04''), dumps_action = (\<lambda>n. ''index '' @ n),
               bulk_answers = (\<lambda>i. BulkAnswer (Returns
                 \<lparr>response_empty = False, response_errors = False, response_json = ''ok''\<rparr>))\<rparr>"

section \<open>Properties of the resource controller\<close>

lemma floor_le_round_even: "\<lfloor>t\<rfloor> \<le> round_even t"
  by (simp add: round_even_def Let_def)

lemma round_even_of_int: "round_even (of_int n) = n"
  by (simp add: round_even_def Let_def)

lemma two_powi_pos: "0 < (2::real) powi e"
  by simp

lemma round_nearest_ge_floor:
  "of_int \<lfloor>y / 2 powi quantum_exp y\<rfloor> * 2 powi quantum_exp y \<le> round_nearest y"
  unfolding round_nearest_def
  by (intro mult_right_mono) (simp_all add: floor_le_round_even less_imp_le [OF two_powi_pos])

lemma multiple_le_floor:
  assumes "l = of_int k * q" "0 < q" "l \<le> y"
  shows "l \<le> of_int \<lfloor>y / q\<rfloor> * (q::real)"
proof -
  from assms have "of_int k \<le> y / q" by (simp add: pos_le_divide_eq)
  then have "k \<le> \<lfloor>y / q\<rfloor>" by (simp add: le_floor_iff)
  then have "of_int k * q \<le> of_int \<lfloor>y / q\<rfloor> * q"
    using assms(2) by (intro mult_right_mono) simp_all
  with assms(1) show ?thesis by simp
qed

lemma multiple_coarser:
  assumes "b \<le> a"
  shows "of_int n * (2::real) powi a = of_int (n * 2 ^ nat (a - b)) * 2 powi b"
proof -
  have "(2::real) powi a = 2 powi (a - b) * 2 powi b"
    using power_int_add [of "2::real" "a - b" b] by simp
  also have "(2::real) powi (a - b) = 2 ^ nat (a - b)"
    using assms by (simp add: power_int_nonneg_exp)
  finally show ?thesis by simp
qed

lemma quantum_exp_mono:
  assumes "l \<noteq> 0" "\<bar>l\<bar> \<le> \<bar>y\<bar>"
  shows "quantum_exp l \<le> quantum_exp y"
proof -
  have "log 2 \<bar>l\<bar> \<le> log 2 \<bar>y\<bar>" using assms by simp
  then have "\<lfloor>log 2 \<bar>l\<bar>\<rfloor> \<le> \<lfloor>log 2 \<bar>y\<bar>\<rfloor>" by (rule floor_mono)
  then show ?thesis by (simp add: quantum_exp_def)
qed

lemma below_binade:
  assumes "l \<noteq> 0" "0 < y" "quantum_exp l < quantum_exp y"
  shows "\<bar>l\<bar> < 2 powi (quantum_exp y + 52)" "2 powi (quantum_exp y + 52) \<le> y"
proof -
  from assms(3) have e: "quantum_exp y = \<lfloor>log 2 \<bar>y\<bar>\<rfloor> - 52"
    and lt: "\<lfloor>log 2 \<bar>l\<bar>\<rfloor> < \<lfloor>log 2 \<bar>y\<bar>\<rfloor>"
    by (auto simp add: quantum_exp_def max_def split: if_splits)
  have p: "(2::real) powr of_int k = 2 powi k" for k
    by (rule powr_real_of_int') simp_all
  from lt have "log 2 \<bar>l\<bar> < of_int \<lfloor>log 2 \<bar>y\<bar>\<rfloor>"
    by (simp add: floor_less_iff)
  then have "\<bar>l\<bar> < 2 powr of_int \<lfloor>log 2 \<bar>y\<bar>\<rfloor>"
    using assms(1) by (simp add: log_less_iff)
  then show "\<bar>l\<bar> < 2 powi (quantum_exp y + 52)" by (simp add: e p)
  have "2 powr of_int \<lfloor>log 2 \<bar>y\<bar>\<rfloor> \<le> \<bar>y\<bar>"
    using le_log_iff [of 2 "\<bar>y\<bar>" "of_int \<lfloor>log 2 \<bar>y\<bar>\<rfloor>"] assms(2) by simp
  then show "2 powi (quantum_exp y + 52) \<le> y" using assms(2) by (simp add: e p)
qed

lemma round_nearest_ge:
  assumes fixed: "round_nearest l = l" and le: "l \<le> y"
  shows "l \<le> round_nearest y"
proof -
  let ?q = "(2::real) powi quantum_exp y"
  have q: "0 < ?q" by (rule two_powi_pos)
  have l: "l = of_int (round_even (l / 2 powi quantum_exp l)) * 2 powi quantum_exp l"
    using fixed by (simp add: round_nearest_def)
  have fl: "l \<le> of_int \<lfloor>y / ?q\<rfloor> * ?q"
  proof (cases "quantum_exp y \<le> quantum_exp l")
    case True
    from l multiple_coarser [OF True, of "round_even (l / 2 powi quantum_exp l)"]
    have "l = of_int (round_even (l / 2 powi quantum_exp l) * 2 ^ nat (quantum_exp l - quantum_exp y)) * ?q"
      by simp
    then show ?thesis using q le by (rule multiple_le_floor)
  next
    case False
    then have lt: "quantum_exp l < quantum_exp y" by simp
    show ?thesis
    proof (cases "0 < y")
      case ypos: True
      show ?thesis
      proof (cases "l = 0")
        case True
        have "(0::real) = of_int 0 * ?q" by simp
        then have "0 \<le> of_int \<lfloor>y / ?q\<rfloor> * ?q"
          using q by (rule multiple_le_floor) (simp add: less_imp_le [OF ypos])
        with True show ?thesis by simp
      next
        case nz: False
        from below_binade [OF nz ypos lt]
        have a: "\<bar>l\<bar> < 2 powi (quantum_exp y + 52)" and b: "2 powi (quantum_exp y + 52) \<le> y" .
        have m: "(2::real) powi (quantum_exp y + 52) = of_int (2 ^ 52) * ?q"
          using power_int_add [of "2::real" 52 "quantum_exp y"] by (simp add: add.commute)
        from m q b have "2 powi (quantum_exp y + 52) \<le> of_int \<lfloor>y / ?q\<rfloor> * ?q"
          by (rule multiple_le_floor)
        with a show ?thesis by simp
      qed
    next
      case False
      show ?thesis
      proof (cases "y = 0")
        case True
        with le show ?thesis by simp
      next
        case ynz: False
        with False le have "\<bar>y\<bar> \<le> \<bar>l\<bar>" by simp
        with ynz have "quantum_exp y \<le> quantum_exp l" by (rule quantum_exp_mono)
        with lt show ?thesis by simp
      qed
    qed
  qed
  also have "\<dots> \<le> round_nearest y" by (rule round_nearest_ge_floor)
  finally show ?thesis .
qed

lemma quantum_exp_eq:
  assumes "2 powi k \<le> \<bar>y\<bar>" "\<bar>y\<bar> < 2 powi (k + 1)" "- 1022 \<le> k"
  shows "quantum_exp y = k - 52"
proof -
  have p: "(2::real) powr of_int j = 2 powi j" for j
    by (rule powr_real_of_int') simp_all
  have "0 < (2::real) powi k" by simp
  with assms(1) have pos: "0 < \<bar>y\<bar>" by linarith
  have "\<lfloor>log 2 \<bar>y\<bar>\<rfloor> = k"
    using floor_log_eq_powr_iff [of "\<bar>y\<bar>" 2 k] pos assms(1,2) p [of k] p [of "k + 1"]
    by simp
  with assms(3) show ?thesis by (simp add: quantum_exp_def)
qed

lemma py_gt_add:
  assumes "py_number l" "0 \<le> c" "py_gt x (py_add l c)"
  shows "py_gt x l"
proof (cases l)
  case (NInt i)
  with assms show ?thesis by simp
next
  case (NFloat y)
  with assms(1) have b: "\<bar>y\<bar> < 2 ^ 1024" and f: "round_nearest y = y"
    by (simp_all add: is_binary64_def)
  from assms(2) have "y \<le> y + of_int c" by simp
  with f have r: "y \<le> round_nearest (y + of_int c)" by (rule round_nearest_ge)
  from b have "- (2 ^ 1024) < y" by simp
  with r have n: "\<not> round_nearest (y + of_int c) \<le> - (2 ^ 1024)" by simp
  from assms(3) NFloat n have "round_nearest (y + of_int c) < x"
    by (simp add: binary64_def Let_def split: if_splits)
  with r NFloat show ?thesis by simp
qed (use assms in simp_all)

lemma current_throttling_level_spec:
  assumes "py_number cl" "py_number rl"
  shows "current_throttling_level cl rl cpu ram = spec_level cl rl cpu ram"
proof -
  have a: "py_gt cpu (py_add cl 10) \<Longrightarrow> py_gt cpu cl" "py_gt cpu (py_add cl 5) \<Longrightarrow> py_gt cpu cl"
    using py_gt_add [OF assms(1), of 10 cpu] py_gt_add [OF assms(1), of 5 cpu] by simp_all
  have b: "py_gt ram (py_add rl 10) \<Longrightarrow> py_gt ram rl" "py_gt ram (py_add rl 5) \<Longrightarrow> py_gt ram rl"
    using py_gt_add [OF assms(2), of 10 ram] py_gt_add [OF assms(2), of 5 ram] by simp_all
  show ?thesis
    unfolding current_throttling_level_def spec_level_def using a b by auto
qed

lemma apply_throttling_published:
  "shared_state (snd (apply_throttling self cpu ram w)) ''throttling_level''
     = Some (PInt (current_throttling_level (cpu_limit self) (ram_limit self) cpu ram))"
  by (simp add: apply_throttling_def Let_def set_state_def logging_def)

lemma apply_throttling_self:
  "throttling_level (fst (apply_throttling self cpu ram w))
     = current_throttling_level (cpu_limit self) (ram_limit self) cpu ram"
  by (simp add: apply_throttling_def Let_def)

text \<open>
  C2. For every CPU and RAM percentage, every pair of limits that are Python numbers and
  every prior state, the level that \<open>_apply_throttling\<close> publishes under
  \<open>throttling_level\<close> and keeps in the controller is the level of the specification's
  cascade (Severe above limit+10, else Moderate above limit+5, else Light above the limit,
  else Normal), the sums being the program's: exact for an \<open>int\<close> limit, rounded to the
  nearest float for a \<open>float\<close> limit. It depends on nothing but the four numbers. With
  limits 70/70: (71,0) is Light, (76,0) Moderate, (81,0) Severe and (70,70) Normal.
\<close>

theorem apply_throttling_level:
  "(py_number (cpu_limit self) \<and> py_number (ram_limit self) \<longrightarrow>
      shared_state (snd (apply_throttling self cpu ram w)) ''throttling_level''
        = Some (PInt (spec_level (cpu_limit self) (ram_limit self) cpu ram))
      \<and> throttling_level (fst (apply_throttling self cpu ram w))
        = spec_level (cpu_limit self) (ram_limit self) cpu ram)
   \<and> throttling_level (fst (apply_throttling rc70 71 0 w)) = 1
   \<and> throttling_level (fst (apply_throttling rc70 76 0 w)) = 2
   \<and> throttling_level (fst (apply_throttling rc70 81 0 w)) = 3
   \<and> throttling_level (fst (apply_throttling rc70 70 70 w)) = 0"
  by (simp add: apply_throttling_published apply_throttling_self
      current_throttling_level_spec)
    (simp add: current_throttling_level_def rc70_def)

lemma binary64_finite:
  "round_nearest y = r \<Longrightarrow> \<bar>r\<bar> < 2 ^ 1024 \<Longrightarrow> binary64 y = NFloat r"
  by (auto simp add: binary64_def Let_def)

lemma float_54_4_is_binary64: "is_binary64 float_54_4"
proof -
  have q: "quantum_exp float_54_4 = - 47"
    using quantum_exp_eq [of 5 float_54_4] by (simp add: float_54_4_def)
  have "round_nearest float_54_4 = float_54_4"
    unfolding round_nearest_def q by (simp add: float_54_4_def round_even_def)
  moreover have "\<bar>float_54_4\<bar> < 2 ^ 1024"
    by (simp add: float_54_4_def)
  ultimately show ?thesis by (simp add: is_binary64_def)
qed

lemma float_54_4_add_10: "binary64 (float_54_4 + 10) = NFloat float_64_4"
proof (rule binary64_finite)
  have q: "quantum_exp (float_54_4 + 10) = - 46"
    using quantum_exp_eq [of 6 "float_54_4 + 10"] by (simp add: float_54_4_def)
  show "round_nearest (float_54_4 + 10) = float_64_4"
    unfolding round_nearest_def q by (simp add: float_54_4_def float_64_4_def round_even_def)
  show "\<bar>float_64_4\<bar> < 2 ^ 1024"
    by (simp add: float_64_4_def)
qed

lemma float_54_4_add_5: "binary64 (float_54_4 + 5) = NFloat (float_54_4 + 5)"
proof (rule binary64_finite)
  have q: "quantum_exp (float_54_4 + 5) = - 47"
    using quantum_exp_eq [of 5 "float_54_4 + 5"] by (simp add: float_54_4_def)
  show "round_nearest (float_54_4 + 5) = float_54_4 + 5"
    unfolding round_nearest_def q by (simp add: float_54_4_def round_even_def)
  show "\<bar>float_54_4 + 5\<bar> < 2 ^ 1024"
    by (simp add: float_54_4_def)
qed

theorem apply_throttling_level_witness:
  "py_number (cpu_limit rc_54_4) \<and> py_number (ram_limit rc_54_4)
   \<and> py_add (cpu_limit rc_54_4) 10 = NFloat float_64_4
   \<and> throttling_level (fst (apply_throttling rc_54_4 float_64_4 0 world0)) = 2
   \<and> shared_state (snd (apply_throttling rc_54_4 float_64_4 0 world0)) ''throttling_level''
       = Some (PInt 2)"
proof -
  have n: "py_number (cpu_limit rc_54_4) \<and> py_number (ram_limit rc_54_4)"
    by (simp add: rc_54_4_def float_54_4_is_binary64)
  have a: "py_add (cpu_limit rc_54_4) 10 = NFloat float_64_4"
    using float_54_4_add_10 by (simp add: rc_54_4_def)
  have b: "py_add (cpu_limit rc_54_4) 5 = NFloat (float_54_4 + 5)"
    using float_54_4_add_5 by (simp add: rc_54_4_def)
  have c: "ram_limit rc_54_4 = cpu_limit rc_54_4" "cpu_limit rc_54_4 = NFloat float_54_4"
    by (simp_all add: rc_54_4_def)
  have l: "spec_level (cpu_limit rc_54_4) (ram_limit rc_54_4) float_64_4 0 = 2"
    unfolding spec_level_def c(1) a b unfolding c(2)
    by (simp add: float_64_4_def float_54_4_def)
  from apply_throttling_level [of rc_54_4 float_64_4 0 world0] n l a
  show ?thesis by simp
qed

lemma run_loop_sampling_failure:
  "run_loop (map Returns good @ Raises e # rest) self w
     = (case run_loop (map Returns good) self w of (r, self', w') \<Rightarrow> (Some e, self', w'))"
proof (induction good arbitrary: self w)
  case Nil
  show ?case by simp
next
  case (Cons s good)
  obtain cpu ram where s: "s = (cpu, ram)" by (cases s)
  obtain self1 w1 where a: "apply_throttling self cpu ram
      (set_state ''ram_usage'' (PFloat ram) (set_state ''cpu_usage'' (PFloat cpu) w)) = (self1, w1)"
    by (cases "apply_throttling self cpu ram
      (set_state ''ram_usage'' (PFloat ram) (set_state ''cpu_usage'' (PFloat cpu) w))")
  show ?case using Cons.IH [of self1 "perform (Sleep (sleep_interval self1)) w1"]
    by (simp add: s a Let_def)
qed

text \<open>
  C5, as the claim states it, fails. A tick whose sampling raises ends \<open>run\<close> with that
  exception: nothing but the start message is in the log, and the sample of the next tick
  is never published.
\<close>

theorem run_sampling_failure_counterexample:
  "fst (run [Raises (Exn OSErrorOther ''psutil''), Returns (95, 95)] rc70 world0)
     = Some (Exn OSErrorOther ''psutil'')
   \<and> logged (snd (snd (run [Raises (Exn OSErrorOther ''psutil''), Returns (95, 95)] rc70 world0)))
     = [LogInfo ''Processus de Controle / Ressources demarre.'']
   \<and> shared_state (snd (snd (run [Raises (Exn OSErrorOther ''psutil''), Returns (95, 95)] rc70 world0)))
        ''cpu_usage'' = None"
  by (simp add: run_def logging_def world0_def)

text \<open>
  C5, amended. If sampling the system metrics fails in a tick of \<open>run\<close>, after any number of
  ticks that sampled well, the exception leaves \<open>run\<close> and the ticks after it never run;
  the controller, the shared state, the log and the trace are exactly as the ticks
  before left them. So no key is written and nothing is logged in the failing tick, and the
  published throttling level keeps its previous value.
\<close>

theorem run_sampling_failure_propagates:
  "run (map Returns good @ Raises e # rest) self w
     = (case run (map Returns good) self w of (r, self', w') \<Rightarrow> (Some e, self', w'))"
  unfolding run_def by (rule run_loop_sampling_failure)

section \<open>Properties of the configuration manager\<close>

text \<open>
  C9. When \<open>_load_config\<close> returns a document, \<open>reload_config\<close> replaces the in-memory
  config by it in one step (the path is kept) and every later \<open>get\<close> walks the new
  document. When \<open>_load_config\<close> raises, for one when the file is absent, the exception
  reaches the caller and the configuration manager and the output are exactly as before.
\<close>

theorem reload_config_replaces:
  "(load_config safe_load fs self = Returns doc \<longrightarrow>
      reload_config safe_load fs self stdout
        = (None, self\<lparr>config := doc\<rparr>, stdout @ [''Configuration rechargee.''])
      \<and> (\<forall>key d. get (fst (snd (reload_config safe_load fs self stdout))) key d
            = get_loop (split_str ''.'' key) doc d))
   \<and> (load_config safe_load fs self = Raises e \<longrightarrow>
      reload_config safe_load fs self stdout = (Some e, self, stdout))
   \<and> (fs (config_path self) = None \<longrightarrow>
      (\<exists>e'. exc_class_of e' = FileNotFoundError
         \<and> reload_config safe_load fs self stdout = (Some e', self, stdout)))"
  by (auto simp add: reload_config_def get_def load_config_def)

theorem reload_config_replaces_witness:
  "load_config toy_safe_load toy_fs toy_cm = Returns (YDict [(''new_key'', YInt 5)])
   \<and> get (fst (snd (reload_config toy_safe_load toy_fs toy_cm []))) ''new_key'' YNull = YInt 5
   \<and> get (fst (snd (reload_config toy_safe_load toy_fs toy_cm []))) ''test_section.key2'' YNull = YNull
   \<and> get toy_cm ''test_section.key2'' YNull = YInt 123
   \<and> load_config toy_safe_load Map.empty toy_cm
       = Raises (Exn FileNotFoundError ''Le fichier de configuration na pas ete trouve a : config.yaml'')
   \<and> reload_config toy_safe_load Map.empty toy_cm []
       = (Some (Exn FileNotFoundError ''Le fichier de configuration na pas ete trouve a : config.yaml''),
          toy_cm, [])"
proof -
  have l: "load_config toy_safe_load toy_fs toy_cm = Returns (YDict [(''new_key'', YInt 5)])"
    by (simp add: load_config_def toy_safe_load_def toy_fs_def toy_cm_def)
  have m: "load_config toy_safe_load Map.empty toy_cm
       = Raises (Exn FileNotFoundError ''Le fichier de configuration na pas ete trouve a : config.yaml'')"
    by (simp add: load_config_def toy_cm_def)
  have g: "get toy_cm ''test_section.key2'' YNull = YInt 123"
    by (simp add: get_def split_str_def toy_cm_def)
  from reload_config_replaces [of toy_safe_load toy_fs toy_cm "YDict [(''new_key'', YInt 5)]" "[]"
      "Exn OtherException []"] l
  have q: "\<forall>key d. get (fst (snd (reload_config toy_safe_load toy_fs toy_cm []))) key d
            = get_loop (split_str ''.'' key) (YDict [(''new_key'', YInt 5)]) d"
    by blast
  have a: "get (fst (snd (reload_config toy_safe_load toy_fs toy_cm []))) ''new_key'' YNull = YInt 5"
    by (simp add: q split_str_def)
  have b: "get (fst (snd (reload_config toy_safe_load toy_fs toy_cm []))) ''test_section.key2'' YNull = YNull"
    by (simp add: q split_str_def)
  from reload_config_replaces [of toy_safe_load Map.empty toy_cm YNull "[]"
      "Exn FileNotFoundError ''Le fichier de configuration na pas ete trouve a : config.yaml''"] m
  have c: "reload_config toy_safe_load Map.empty toy_cm []
       = (Some (Exn FileNotFoundError ''Le fichier de configuration na pas ete trouve a : config.yaml''),
          toy_cm, [])"
    by simp
  from l m g a b c show ?thesis by simp
qed

section \<open>Properties of the connectivity checks\<close>

lemma retry_loop_done:
  "\<not> retries < maxr \<Longrightarrow> retry_loop maxr ib func retries w = (Inr None, w)"
  by (subst retry_loop.simps) simp

lemma retry_loop_success:
  "retries < maxr \<Longrightarrow> func retries w = (Inr v, w')
     \<Longrightarrow> retry_loop maxr ib func retries w = (Inr (Some v), w')"
  by (subst retry_loop.simps) simp

lemma retry_loop_exhausted:
  "retries < maxr \<Longrightarrow> func retries w = (Inl e, w') \<Longrightarrow> maxr \<le> retries + 1
     \<Longrightarrow> retry_loop maxr ib func retries w = (Inl e, w')"
  by (subst retry_loop.simps) simp

lemma retry_loop_again:
  "func retries w = (Inl e, w') \<Longrightarrow> retries + 1 < maxr
     \<Longrightarrow> retry_loop maxr ib func retries w
         = retry_loop maxr ib func (retries + 1) (backoff_wait (ib * 2 ^ (retries + 1)) w')"
  by (subst retry_loop.simps) simp

lemma retry_loop_after_failures:
  "after_failures func ts r w = Some wk
   \<Longrightarrow> \<forall>j < length ts. ts ! j = ib * 2 ^ (r + j + 1)
   \<Longrightarrow> r + length ts < maxr
   \<Longrightarrow> retry_loop maxr ib func r w = retry_loop maxr ib func (r + length ts) wk"
proof (induction ts arbitrary: r w)
  case Nil
  then show ?case by simp
next
  case (Cons t ts)
  from Cons.prems(1) obtain e w' where f: "func r w = (Inl e, w')"
    and a: "after_failures func ts (Suc r) (backoff_wait t w') = Some wk"
    by (auto split: prod.splits sum.splits)
  from Cons.prems(2) have t: "t = ib * 2 ^ (r + 1)" by auto
  from Cons.prems(2) have ts: "\<forall>j < length ts. ts ! j = ib * 2 ^ (Suc r + j + 1)" by auto
  from Cons.prems(3) have lt: "Suc r + length ts < maxr" "r + 1 < maxr" by auto
  have "retry_loop maxr ib func r w = retry_loop maxr ib func (Suc r) (backoff_wait t w')"
    using retry_loop_again [of func r w e w' maxr ib, OF f lt(2)] t by simp
  also have "\<dots> = retry_loop maxr ib func (Suc r + length ts) wk"
    by (rule Cons.IH [OF a ts lt(1)])
  finally show ?case by simp
qed

lemma waits_nth: "j < 4 \<Longrightarrow> [2, 4, 8, 16::nat] ! j = 2 ^ (j + 1)"
proof -
  assume "j < 4"
  then have "j = 0 \<or> j = 1 \<or> j = 2 \<or> j = 3" by arith
  then show ?thesis by (elim disjE) simp_all
qed

lemma waits_5_1:
  "\<forall>j < length (take k [2, 4, 8, 16::nat]). take k [2, 4, 8, 16] ! j = (1::nat) * 2 ^ (0 + j + 1)"
  using waits_nth by simp

text \<open>
  C3. For every operation handed to \<open>_retry_operation\<close> with \<open>max_retries = 5\<close> and
  \<open>initial_backoff = 1\<close>: when the calls number 0 to \<open>k - 1\<close> fail (\<open>k < 5\<close>), each
  followed by the wait of 2, 4, 8, 16 seconds in this order, and call number \<open>k\<close>
  succeeds, its value is returned in the world that call left, so nothing runs after it.
  When the five calls fail, with the waits 2, 4, 8, 16 between them, the error of the
  fifth call is raised in the world the fifth call left: there is no fifth wait and no
  sixth call.
\<close>

theorem retry_operation_5_1:
  "max_retries self = 5 \<and> initial_backoff self = 1 \<longrightarrow>
   (k < 5 \<and> after_failures func (take k [2, 4, 8, 16]) 0 w = Some wk \<and> func k wk = (Inr v, w')
      \<longrightarrow> retry_operation self func w = (Inr (Some v), w'))
   \<and> (after_failures func [2, 4, 8, 16] 0 w = Some w4 \<and> func 4 w4 = (Inl e, w'')
      \<longrightarrow> retry_operation self func w = (Inl e, w''))"
proof (intro impI conjI)
  assume s: "max_retries self = 5 \<and> initial_backoff self = 1"
  assume h: "k < 5 \<and> after_failures func (take k [2, 4, 8, 16]) 0 w = Some wk \<and> func k wk = (Inr v, w')"
  then have k: "k < 5" and a: "after_failures func (take k [2, 4, 8, 16]) 0 w = Some wk"
    and f: "func k wk = (Inr v, w')" by simp_all
  have len: "length (take k [2, 4, 8, 16::nat]) = k" using k by simp
  have "retry_loop 5 1 func 0 w = retry_loop 5 1 func (0 + length (take k [2, 4, 8, 16::nat])) wk"
    by (rule retry_loop_after_failures [OF a waits_5_1]) (simp add: len k)
  also have "\<dots> = (Inr (Some v), w')"
    using retry_loop_success [of k 5 func wk v w' 1] f k by (simp add: len)
  finally show "retry_operation self func w = (Inr (Some v), w')"
    using s by (simp add: retry_operation_def)
next
  assume s: "max_retries self = 5 \<and> initial_backoff self = 1"
  assume h: "after_failures func [2, 4, 8, 16] 0 w = Some w4 \<and> func 4 w4 = (Inl e, w'')"
  then have a: "after_failures func (take 4 [2, 4, 8, 16]) 0 w = Some w4"
    and f: "func 4 w4 = (Inl e, w'')" by simp_all
  have l4: "0 + length (take 4 [2, 4, 8, 16::nat]) = 4" by simp
  have "retry_loop 5 1 func 0 w = retry_loop 5 1 func (0 + length (take 4 [2, 4, 8, 16::nat])) w4"
    by (rule retry_loop_after_failures [OF a waits_5_1]) simp_all
  then have "retry_loop 5 1 func 0 w = retry_loop 5 1 func 4 w4"
    unfolding l4 .
  also have "\<dots> = (Inl e, w'')"
    by (rule retry_loop_exhausted [of 4 5 func w4 e w'' 1]) (simp_all add: f)
  finally show "retry_operation self func w = (Inl e, w'')"
    using s by (simp add: retry_operation_def)
qed

theorem retry_operation_5_1_witness:
  "max_retries ca0 = 5 \<and> initial_backoff ca0 = 1
   \<and> fst (retry_operation ca0 (\<lambda>i. check_dns_resolution ''h'' (dns_down i)) world0)
       = Inl (Exn GaiError ''failure 4'')
   \<and> effects (snd (retry_operation ca0 (\<lambda>i. check_dns_resolution ''h'' (dns_down i)) world0))
       = [Getaddrinfo ''h'', Sleep 2, Getaddrinfo ''h'', Sleep 4, Getaddrinfo ''h'', Sleep 8,
          Getaddrinfo ''h'', Sleep 16, Getaddrinfo ''h'']
   \<and> fst (retry_operation ca0 (\<lambda>i. check_dns_resolution ''h'' (dns_down_twice i)) world0)
       = Inr (Some True)
   \<and> effects (snd (retry_operation ca0 (\<lambda>i. check_dns_resolution ''h'' (dns_down_twice i)) world0))
       = [Getaddrinfo ''h'', Sleep 2, Getaddrinfo ''h'', Sleep 4, Getaddrinfo ''h'']"
proof -
  let ?F = "\<lambda>i. check_dns_resolution ''h'' (dns_down i)"
  let ?G = "\<lambda>i. check_dns_resolution ''h'' (dns_down_twice i)"
  have s: "max_retries ca0 = 5 \<and> initial_backoff ca0 = 1"
    by (simp add: ca0_def)
  have "\<exists>w4. after_failures ?F [2, 4, 8, 16] 0 world0 = Some w4
          \<and> effects w4 = [Getaddrinfo ''h'', Sleep 2, Getaddrinfo ''h'', Sleep 4,
                           Getaddrinfo ''h'', Sleep 8, Getaddrinfo ''h'', Sleep 16]"
    by (simp add: check_dns_resolution_def dns_down_def backoff_wait_def perform_def
        logging_def world0_def)
  then obtain w4 where a4: "after_failures ?F [2, 4, 8, 16] 0 world0 = Some w4"
    and e4: "effects w4 = [Getaddrinfo ''h'', Sleep 2, Getaddrinfo ''h'', Sleep 4,
                           Getaddrinfo ''h'', Sleep 8, Getaddrinfo ''h'', Sleep 16]"
    by blast
  have f4: "?F 4 w4 = (Inl (Exn GaiError ''failure 4''),
      logging (LogError ''Echec de la resolution DNS'') (perform (Getaddrinfo ''h'') w4))"
    by (simp add: check_dns_resolution_def dns_down_def str_nat.simps)
  from retry_operation_5_1 [of ca0 0 ?F world0 world0 True world0 w4 "Exn GaiError ''failure 4''"
      "logging (LogError ''Echec de la resolution DNS'') (perform (Getaddrinfo ''h'') w4)"] s a4 f4
  have r1: "retry_operation ca0 ?F world0 = (Inl (Exn GaiError ''failure 4''),
      logging (LogError ''Echec de la resolution DNS'') (perform (Getaddrinfo ''h'') w4))"
    by blast
  have "\<exists>w2. after_failures ?G (take 2 [2, 4, 8, 16]) 0 world0 = Some w2
          \<and> effects w2 = [Getaddrinfo ''h'', Sleep 2, Getaddrinfo ''h'', Sleep 4]"
    by (simp add: check_dns_resolution_def dns_down_twice_def backoff_wait_def perform_def
        logging_def world0_def)
  then obtain w2 where a2: "after_failures ?G (take 2 [2, 4, 8, 16]) 0 world0 = Some w2"
    and e2: "effects w2 = [Getaddrinfo ''h'', Sleep 2, Getaddrinfo ''h'', Sleep 4]"
    by blast
  have f2: "?G 2 w2 = (Inr True,
      logging (LogInfo ''Resolution DNS reussie'') (perform (Getaddrinfo ''h'') w2))"
    by (simp add: check_dns_resolution_def dns_down_twice_def)
  from retry_operation_5_1 [of ca0 2 ?G world0 w2 True
      "logging (LogInfo ''Resolution DNS reussie'') (perform (Getaddrinfo ''h'') w2)"
      world0 "Exn GaiError []" world0] s a2 f2
  have r2: "retry_operation ca0 ?G world0 = (Inr (Some True),
      logging (LogInfo ''Resolution DNS reussie'') (perform (Getaddrinfo ''h'') w2))"
    by simp
  show ?thesis
    by (simp add: s r1 r2 e4 e2 logging_def perform_def)
qed

text \<open>
  C4, as the claim states it, fails for a transport error: the handler of the check
  records the failure and raises the exception again, so it leaves the check.
\<close>

theorem check_opensearch_transport_error_counterexample:
  "fst (check_opensearch_bulk_test ca0 (Raises (Exn AioClientError ''Cannot connect to host'')) world0)
     = Inl (Exn AioClientError ''Cannot connect to host'')"
  by (simp add: check_opensearch_bulk_test_def ca0_def Let_def)

text \<open>
  C4, amended. With an endpoint configured, \<open>check_opensearch_bulk_test\<close> returns true if
  and only if the request returns with status exactly 200; for every other status it
  returns false without raising; for a transport error, as for any other exception of
  the request, it raises that exception again to its caller. In every case \<open>aws_ready\<close>
  is published as the success, and every failure writes \<open>last_error\<close>. With no endpoint
  configured it returns false.
\<close>

theorem check_opensearch_bulk_test_outcome:
  "(opensearch_endpoint self = Some endpoint \<and> endpoint \<noteq> [] \<longrightarrow>
      fst (check_opensearch_bulk_test self answer w)
        = (case answer of Returns status \<Rightarrow> Inr (status = 200) | Raises e \<Rightarrow> Inl e)
      \<and> shared_state (snd (check_opensearch_bulk_test self answer w)) ''aws_ready''
        = Some (PBool (answer = Returns 200))
      \<and> (answer \<noteq> Returns 200 \<longrightarrow>
           (\<exists>msg. shared_state (snd (check_opensearch_bulk_test self answer w)) ''last_error''
              = Some (PStr msg))))
   \<and> (opensearch_endpoint self = None \<or> opensearch_endpoint self = Some [] \<longrightarrow>
        fst (check_opensearch_bulk_test self answer w) = Inr False)"
  by (auto simp add: check_opensearch_bulk_test_def Let_def set_state_def logging_def perform_def
      split: outcome.splits)


theorem check_opensearch_bulk_test_outcome_witness:
  "opensearch_endpoint ca0 = Some ''https://search.example.com''
   \<and> fst (check_opensearch_bulk_test ca0 (Returns 200) world0) = Inr True
   \<and> fst (check_opensearch_bulk_test ca0 (Returns 503) world0) = Inr False
   \<and> shared_state (snd (check_opensearch_bulk_test ca0 (Returns 503) world0)) ''aws_ready''
       = Some (PBool False)
   \<and> fst (check_opensearch_bulk_test (ca0\<lparr>opensearch_endpoint := None\<rparr>) (Returns 200) world0)
       = Inr False"
proof -
  have e: "opensearch_endpoint ca0 = Some ''https://search.example.com''"
    by (simp add: ca0_def)
  have n: "opensearch_endpoint (ca0\<lparr>opensearch_endpoint := None\<rparr>) = None"
    by simp
  from check_opensearch_bulk_test_outcome [of ca0 "''https://search.example.com''" "Returns 200" world0] e
  have a: "fst (check_opensearch_bulk_test ca0 (Returns 200) world0) = Inr True"
    by simp
  from check_opensearch_bulk_test_outcome [of ca0 "''https://search.example.com''" "Returns 503" world0] e
  have b: "fst (check_opensearch_bulk_test ca0 (Returns 503) world0) = Inr False"
    and c: "shared_state (snd (check_opensearch_bulk_test ca0 (Returns 503) world0)) ''aws_ready''
       = Some (PBool False)"
    by simp_all
  from check_opensearch_bulk_test_outcome [of "ca0\<lparr>opensearch_endpoint := None\<rparr>" "[]" "Returns 200" world0] n
  have d: "fst (check_opensearch_bulk_test (ca0\<lparr>opensearch_endpoint := None\<rparr>) (Returns 200) world0)
       = Inr False"
    by simp
  from e a b c d show ?thesis by simp
qed

lemma pipeline_ok_of_iff:
  "pipeline_ok_of results = list_all (\<lambda>r. isl r \<or> r = Inr (Some True)) results"
  unfolding pipeline_ok_of_def by (induction results) auto

lemma opensearch_hostname_of_example:
  "opensearch_hostname_of ''https://search.example.com'' = ''search.example.com''"
  by (simp add: opensearch_hostname_of_def split_str_def)

text \<open>
  C1. The code does not do what the claim says. In a cycle in which DNS, the HTTP health
  call and Redis succeed and the TLS handshake fails in all five attempts, the TLS task
  ends with the exception, \<open>gather\<close> returns it as a result, the filter of \<open>pipeline_ok\<close>
  drops it, and the cycle publishes \<open>pipeline_ok = True\<close> and logs that all checks are OK.
\<close>

theorem pipeline_ok_ignores_raised_task:
  "fst (retry_operation ca0
          (\<lambda>i. check_tls_handshake ''search.example.com'' 443 (tls_answers tls_down i)) world0)
     = Inl (Exn SSLError ''handshake failure'')
   \<and> pipeline_ok_of [Inr (Some True), Inl (Exn SSLError ''handshake failure''),
                      Inr (Some True), Inr (Some True)] = True
   \<and> shared_state (connectivity_cycle ca0 tls_down world0) ''pipeline_ok'' = Some (PBool True)
   \<and> last (logged (connectivity_cycle ca0 tls_down world0))
       = LogInfo ''Toutes les verifications de connectivite sont OK.''"
proof -
  have a: "fst (retry_operation ca0
          (\<lambda>i. check_tls_handshake ''search.example.com'' 443 (tls_answers tls_down i)) world0)
     = Inl (Exn SSLError ''handshake failure'')"
    by (simp add: retry_operation_def ca0_def tls_down_def all_up_def check_tls_handshake_def
        retry_loop.simps)
  have b: "pipeline_ok_of [Inr (Some True), Inl (Exn SSLError ''handshake failure''),
                      Inr (Some True), Inr (Some True)] = True"
    by (simp add: pipeline_ok_of_def)
  have d: "shared_state (connectivity_cycle ca0 tls_down world0) ''pipeline_ok'' = Some (PBool True)
     \<and> last (logged (connectivity_cycle ca0 tls_down world0))
       = LogInfo ''Toutes les verifications de connectivite sont OK.''"
    apply (simp add: connectivity_cycle_def opensearch_hostname_of_example ca0_def)
    apply (simp add: retry_operation_def tls_down_def all_up_def check_tls_handshake_def
        retry_loop.simps check_dns_resolution_def check_opensearch_bulk_test_def
        check_redis_connectivity_def pipeline_ok_of_def get_def split_str_def set_state_def
        logging_def perform_def backoff_wait_def Let_def)
    done
  from a b d show ?thesis by simp
qed

section \<open>Properties of the health probes and the exporter\<close>

lemma check_services_result:
  "fst (check_services env services w) = list_all (is_running env) services"
  by (induction services arbitrary: w)
    (auto simp add: is_running_def Let_def split: outcome.splits)

lemma check_services_state:
  "shared_state (snd (check_services env services w)) = shared_state w"
  by (induction services arbitrary: w)
    (auto simp add: Let_def logging_def perform_def split: outcome.splits)

lemma check_services_effects:
  "effects (snd (check_services env services w))
     = effects w @ map (\<lambda>s. ContainersGet (container_name s))
         (takeWhile (is_running env) services @ take 1 (dropWhile (is_running env) services))"
  by (induction services arbitrary: w)
    (auto simp add: is_running_def Let_def logging_def perform_def split: outcome.splits)

text \<open>
  C7. For every list of required services, when the daemon answers the ping, the health
  check asks for the containers of the services in the order of the list, up to and
  including the first one that is not found running (not running, not found, or an error)
  and for none after it; it publishes under \<open>docker_healthy\<close>, and returns, whether every
  service of the list is running.
\<close>

theorem check_stack_health_short_circuit:
  "ping env = Returns () \<longrightarrow>
     fst (check_stack_health_of services env w) = list_all (is_running env) services
     \<and> shared_state (snd (check_stack_health_of services env w)) ''docker_healthy''
         = Some (PBool (list_all (is_running env) services))
     \<and> effects (snd (check_stack_health_of services env w))
         = effects w @ DockerPing # map (\<lambda>s. ContainersGet (container_name s))
             (takeWhile (is_running env) services @ take 1 (dropWhile (is_running env) services))"
proof
  assume p: "ping env = Returns ()"
  let ?w1 = "logging (LogInfo ''Le demon Docker est en cours d execution.'') (perform DockerPing w)"
  obtain h w2 where c: "check_services env services ?w1 = (h, w2)"
    by (cases "check_services env services ?w1")
  have h: "h = list_all (is_running env) services"
    using check_services_result [of env services ?w1] c by simp
  have s: "shared_state w2 = shared_state w"
    using check_services_state [of env services ?w1] c by (simp add: logging_def perform_def)
  have e: "effects w2 = effects w @ DockerPing # map (\<lambda>s. ContainersGet (container_name s))
             (takeWhile (is_running env) services @ take 1 (dropWhile (is_running env) services))"
    using check_services_effects [of env services ?w1] c by (simp add: logging_def perform_def)
  have r: "check_stack_health_of services env w
     = (h, if \<not> h then set_state ''last_error'' (PStr ''Docker stack not healthy.'')
                          (set_state ''docker_healthy'' (PBool h) w2)
           else set_state ''docker_healthy'' (PBool h) w2)"
    by (simp add: check_stack_health_of_def check_docker_daemon_def p c Let_def)
  show "fst (check_stack_health_of services env w) = list_all (is_running env) services
     \<and> shared_state (snd (check_stack_health_of services env w)) ''docker_healthy''
         = Some (PBool (list_all (is_running env) services))
     \<and> effects (snd (check_stack_health_of services env w))
         = effects w @ DockerPing # map (\<lambda>s. ContainersGet (container_name s))
             (takeWhile (is_running env) services @ take 1 (dropWhile (is_running env) services))"
    unfolding r using h e by (simp add: set_state_def)
qed

theorem check_stack_health_short_circuit_witness:
  "ping redis_exited = Returns ()
   \<and> fst (check_stack_health redis_exited world0) = False
   \<and> shared_state (snd (check_stack_health redis_exited world0)) ''docker_healthy'' = Some (PBool False)
   \<and> effects (snd (check_stack_health redis_exited world0))
       = [DockerPing, ContainersGet ''oi-vector-1'', ContainersGet ''oi-redis-1'']"
proof -
  have p: "ping redis_exited = Returns ()" by (simp add: redis_exited_def)
  have v: "is_running redis_exited ''vector''" "\<not> is_running redis_exited ''redis''"
    by (simp_all add: is_running_def redis_exited_def container_name_def)
  from check_stack_health_short_circuit [of redis_exited
      "[''vector'', ''redis'', ''prometheus'', ''grafana'']" world0] p
  show ?thesis
    by (simp add: check_stack_health_def v world0_def container_name_def)
qed

lemma update_metrics_world: "snd (snd (update_metrics p self w)) = w"
  by (simp add: update_metrics_def Let_def)

lemma metrics_loop_state:
  "shared_state (snd (snd (metrics_loop p n self w))) = shared_state w"
proof (induction n arbitrary: self w)
  case 0
  show ?case by simp
next
  case (Suc n)
  obtain r self' w' where u: "update_metrics p self w = (r, self', w')"
    by (cases "update_metrics p self w")
  have w': "w' = w" using update_metrics_world [of p self w] u by simp
  show ?case
  proof (cases r)
    case None
    then show ?thesis using Suc.IH [of self' "perform (Sleep 5) w"] u w'
      by (simp add: perform_def)
  next
    case (Some e)
    then show ?thesis using u w' by simp
  qed
qed

text \<open>
  C8. \<open>_update_metrics\<close> returns the world it was given (shared state, log and trace),
  whether it raises or not, and after any number of cycles of the exporter's \<open>run\<close> the
  shared state is the one it started with: the exporter writes no key.
\<close>

theorem update_metrics_reads_only:
  "snd (snd (update_metrics p self w)) = w
   \<and> shared_state (snd (snd (metrics_run p server n self w))) = shared_state w"
  by (cases server)
    (simp_all add: update_metrics_world metrics_run_def metrics_loop_state logging_def Let_def)

lemma binary64_zero: "binary64 0 = NFloat 0"
  by (simp add: binary64_def round_nearest_def round_even_def)

lemma py_float_zero: "py_float p (PInt 0) = Returns 0"
  by (simp add: binary64_zero)

text \<open>
  C6, as the claim states it, fails. With an empty store the log-shipper health check
  concludes that the shipper is unhealthy, and the exporter sets the readiness gauges,
  which stood at 1, to 0.
\<close>

theorem absent_key_read_as_false_counterexample:
  "shared_state world0 ''docker_healthy'' = None
   \<and> fst (check_vector_health world0) = False
   \<and> shared_state (snd (check_vector_health world0)) ''vector_healthy'' = Some (PBool False)
   \<and> aws_ready_gauge ms_ready = 1
   \<and> aws_ready_gauge (fst (snd (update_metrics (\<lambda>s. None) ms_ready world0))) = 0
   \<and> pipeline_ok_gauge (fst (snd (update_metrics (\<lambda>s. None) ms_ready world0))) = 0"
  by (simp add: world0_def check_vector_health_def get_state_def set_state_def logging_def
      update_metrics_def gauge_set_def one_if_def ms_ready_def ms0_def Let_def py_float_zero binary64_zero)

text \<open>\<open>float(2 ** 53 + 1)\<close> is \<open>2.0 ** 53\<close>, and \<open>float(2 ** 1024)\<close> raises.\<close>

lemma py_float_rounds:
  "py_float p (PInt 9007199254740993) = Returns 9007199254740992"
proof -
  have q: "quantum_exp 9007199254740993 = 1"
    using quantum_exp_eq [of 53 9007199254740993] by simp
  have "round_nearest 9007199254740993 = 9007199254740992"
    unfolding round_nearest_def q by (simp add: round_even_def)
  then have "binary64 9007199254740993 = NFloat 9007199254740992"
    by (rule binary64_finite) simp
  then show ?thesis by simp
qed

lemma py_float_overflows:
  "py_float p (PInt (2 ^ 1024))
     = Raises (Exn OverflowError ''int too large to convert to float'')"
proof -
  have q: "quantum_exp (2 ^ 1024) = 972"
    using quantum_exp_eq [of 1024 "2 ^ 1024"] by simp
  have "round_nearest (2 ^ 1024) = 2 ^ 1024"
    unfolding round_nearest_def q by (simp add: round_even_def)
  then have "binary64 (2 ^ 1024) = PosInf"
    by (simp add: binary64_def)
  then show ?thesis by simp
qed

lemma gauge_set_None:
  "fst (gauge_set p assign v st) = None
   \<Longrightarrow> fst st = None \<and> (\<exists>x. py_float p v = Returns x \<and> snd (gauge_set p assign v st) = assign x (snd st))"
  by (cases st) (auto simp add: gauge_set_def split: option.splits outcome.splits)

lemma one_if_absent: "shared_state w k = None \<Longrightarrow> one_if (get_state w k (PBool False)) = PInt 0"
  by (simp add: one_if_def get_state_def)

text \<open>
  C6, amended. A reader takes a key that was never written for the default it passes to
  \<open>get\<close>, which is \<open>False\<close> for the health and readiness keys. With \<open>docker_healthy\<close>
  absent, \<open>check_vector_health\<close> returns false and publishes \<open>vector_healthy = False\<close>
  and \<open>last_error\<close>. A cycle of the exporter that completes reports each of the gauges of
  \<open>vector_healthy\<close>, \<open>aws_ready\<close>, \<open>redis_ready\<close> and \<open>pipeline_ok\<close> as 0 when its key
  is absent.
\<close>

theorem absent_key_read_as_default:
  "(shared_state w ''docker_healthy'' = None \<longrightarrow>
      fst (check_vector_health w) = False
      \<and> shared_state (snd (check_vector_health w)) ''vector_healthy'' = Some (PBool False)
      \<and> shared_state (snd (check_vector_health w)) ''last_error''
          = Some (PStr ''Vector container not healthy.''))
   \<and> (fst (update_metrics p self w) = None \<longrightarrow>
        (shared_state w ''vector_healthy'' = None
           \<longrightarrow> vector_health_gauge (fst (snd (update_metrics p self w))) = 0)
        \<and> (shared_state w ''aws_ready'' = None
           \<longrightarrow> aws_ready_gauge (fst (snd (update_metrics p self w))) = 0)
        \<and> (shared_state w ''redis_ready'' = None
           \<longrightarrow> redis_ready_gauge (fst (snd (update_metrics p self w))) = 0)
        \<and> (shared_state w ''pipeline_ok'' = None
           \<longrightarrow> pipeline_ok_gauge (fst (snd (update_metrics p self w))) = 0))"
proof (rule conjI)
  show "shared_state w ''docker_healthy'' = None \<longrightarrow>
      fst (check_vector_health w) = False
      \<and> shared_state (snd (check_vector_health w)) ''vector_healthy'' = Some (PBool False)
      \<and> shared_state (snd (check_vector_health w)) ''last_error''
          = Some (PStr ''Vector container not healthy.'')"
    by (simp add: check_vector_health_def get_state_def set_state_def logging_def)
next
  show "fst (update_metrics p self w) = None \<longrightarrow>
        (shared_state w ''vector_healthy'' = None
           \<longrightarrow> vector_health_gauge (fst (snd (update_metrics p self w))) = 0)
        \<and> (shared_state w ''aws_ready'' = None
           \<longrightarrow> aws_ready_gauge (fst (snd (update_metrics p self w))) = 0)
        \<and> (shared_state w ''redis_ready'' = None
           \<longrightarrow> redis_ready_gauge (fst (snd (update_metrics p self w))) = 0)
        \<and> (shared_state w ''pipeline_ok'' = None
           \<longrightarrow> pipeline_ok_gauge (fst (snd (update_metrics p self w))) = 0)"
  proof
  assume n: "fst (update_metrics p self w) = None"
  define s1 where "s1 = gauge_set p (\<lambda>x m. m\<lparr>cpu_usage_gauge := x\<rparr>)
                 (get_state w ''cpu_usage'' (PFloat 0)) (None, self)"
  define s2 where "s2 = gauge_set p (\<lambda>x m. m\<lparr>ram_usage_gauge := x\<rparr>)
                 (get_state w ''ram_usage'' (PFloat 0)) s1"
  define s3 where "s3 = gauge_set p (\<lambda>x m. m\<lparr>redis_queue_depth_gauge := x\<rparr>)
                 (get_state w ''redis_queue_depth'' (PInt 0)) s2"
  define s4 where "s4 = gauge_set p (\<lambda>x m. m\<lparr>vector_health_gauge := x\<rparr>)
                 (one_if (get_state w ''vector_healthy'' (PBool False))) s3"
  define s5 where "s5 = gauge_set p (\<lambda>x m. m\<lparr>aws_ready_gauge := x\<rparr>)
                 (one_if (get_state w ''aws_ready'' (PBool False))) s4"
  define s6 where "s6 = gauge_set p (\<lambda>x m. m\<lparr>redis_ready_gauge := x\<rparr>)
                 (one_if (get_state w ''redis_ready'' (PBool False))) s5"
  define s7 where "s7 = gauge_set p (\<lambda>x m. m\<lparr>pipeline_ok_gauge := x\<rparr>)
                 (one_if (get_state w ''pipeline_ok'' (PBool False))) s6"
  define s8 where "s8 = gauge_set p (\<lambda>x m. m\<lparr>throttling_level_gauge := x\<rparr>)
                 (get_state w ''throttling_level'' (PInt 0)) s7"
  have u: "update_metrics p self w = (fst s8, snd s8, w)"
    by (simp add: update_metrics_def Let_def s1_def s2_def s3_def s4_def s5_def s6_def s7_def s8_def)
  from n u have n8: "fst s8 = None" by simp
  from gauge_set_None [OF n8 [unfolded s8_def]] obtain x8 where
    n7: "fst s7 = None" and e8: "snd s8 = (snd s7)\<lparr>throttling_level_gauge := x8\<rparr>"
    by (auto simp add: s8_def)
  from gauge_set_None [OF n7 [unfolded s7_def]] obtain x7 where
    n6: "fst s6 = None" and e7: "snd s7 = (snd s6)\<lparr>pipeline_ok_gauge := x7\<rparr>"
    and f7: "py_float p (one_if (get_state w ''pipeline_ok'' (PBool False))) = Returns x7"
    by (auto simp add: s7_def)
  from gauge_set_None [OF n6 [unfolded s6_def]] obtain x6 where
    n5: "fst s5 = None" and e6: "snd s6 = (snd s5)\<lparr>redis_ready_gauge := x6\<rparr>"
    and f6: "py_float p (one_if (get_state w ''redis_ready'' (PBool False))) = Returns x6"
    by (auto simp add: s6_def)
  from gauge_set_None [OF n5 [unfolded s5_def]] obtain x5 where
    n4: "fst s4 = None" and e5: "snd s5 = (snd s4)\<lparr>aws_ready_gauge := x5\<rparr>"
    and f5: "py_float p (one_if (get_state w ''aws_ready'' (PBool False))) = Returns x5"
    by (auto simp add: s5_def)
  from gauge_set_None [OF n4 [unfolded s4_def]] obtain x4 where
    e4: "snd s4 = (snd s3)\<lparr>vector_health_gauge := x4\<rparr>"
    and f4: "py_float p (one_if (get_state w ''vector_healthy'' (PBool False))) = Returns x4"
    by (auto simp add: s4_def)
  have g4: "shared_state w ''vector_healthy'' = None
      \<longrightarrow> vector_health_gauge (fst (snd (update_metrics p self w))) = 0"
    using f4 by (auto simp add: u e8 e7 e6 e5 e4 one_if_absent py_float_zero binary64_zero)
  have g5: "shared_state w ''aws_ready'' = None
      \<longrightarrow> aws_ready_gauge (fst (snd (update_metrics p self w))) = 0"
    using f5 by (auto simp add: u e8 e7 e6 e5 one_if_absent py_float_zero binary64_zero)
  have g6: "shared_state w ''redis_ready'' = None
      \<longrightarrow> redis_ready_gauge (fst (snd (update_metrics p self w))) = 0"
    using f6 by (auto simp add: u e8 e7 e6 one_if_absent py_float_zero binary64_zero)
  have g7: "shared_state w ''pipeline_ok'' = None
      \<longrightarrow> pipeline_ok_gauge (fst (snd (update_metrics p self w))) = 0"
    using f7 by (auto simp add: u e8 e7 one_if_absent py_float_zero binary64_zero)
  from g4 g5 g6 g7 show "(shared_state w ''vector_healthy'' = None
           \<longrightarrow> vector_health_gauge (fst (snd (update_metrics p self w))) = 0)
        \<and> (shared_state w ''aws_ready'' = None
           \<longrightarrow> aws_ready_gauge (fst (snd (update_metrics p self w))) = 0)
        \<and> (shared_state w ''redis_ready'' = None
           \<longrightarrow> redis_ready_gauge (fst (snd (update_metrics p self w))) = 0)
        \<and> (shared_state w ''pipeline_ok'' = None
           \<longrightarrow> pipeline_ok_gauge (fst (snd (update_metrics p self w))) = 0)"
    by blast
  qed
qed

theorem absent_key_read_as_default_witness:
  "shared_state world0 ''docker_healthy'' = None
   \<and> fst (update_metrics (\<lambda>s. None) ms_ready world0) = None
   \<and> fst (check_vector_health world0) = False
   \<and> vector_health_gauge (fst (snd (update_metrics (\<lambda>s. None) ms_ready world0))) = 0
   \<and> redis_ready_gauge (fst (snd (update_metrics (\<lambda>s. None) ms_ready world0))) = 0"
proof -
  have a: "\<And>k. shared_state world0 k = None" by (simp add: world0_def)
  have b: "fst (update_metrics (\<lambda>s. None) ms_ready world0) = None"
    by (simp add: update_metrics_def gauge_set_def one_if_def get_state_def world0_def Let_def
        py_float_zero binary64_zero)
  from absent_key_read_as_default [of world0 "\<lambda>s. None" ms_ready] a b
  show ?thesis by simp
qed

section \<open>Properties of the bulk sending\<close>

lemma handle_send_error_client_error:
  "shared_state (handle_send_error (Exn (BotoClientError (Some ''ThrottlingException'')) ''An error occurred'') world0)
      ''last_error'' = Some (PStr ''AWS ClientError: ThrottlingException'')"
  by (simp add: handle_send_error_def set_state_def logging_def world0_def)

lemma bulk_data_loop_no_dict:
  "list_all (\<lambda>l. \<not> is_dict l) logs
   \<Longrightarrow> fst (bulk_data_loop self env prefix logs acc w) = Inr acc
       \<and> shared_state (snd (bulk_data_loop self env prefix logs acc w)) = shared_state w
       \<and> effects (snd (bulk_data_loop self env prefix logs acc w)) = effects w"
proof (induction logs arbitrary: w)
  case Nil
  show ?case by simp
next
  case (Cons l logs)
  from Cons.prems obtain v where l: "l = OtherLog v" by (cases l) simp_all
  from Cons.prems have r: "list_all (\<lambda>l. \<not> is_dict l) logs" by simp
  show ?case
    using Cons.IH [OF r, of "logging (LogWarning ''Log ignore car non au format dictionnaire'') w"]
    by (simp add: l logging_def)
qed

text \<open>
  C10. For every call of \<open>send_bulk_to_opensearch\<close> with an endpoint configured and a
  \<open>logs\<close> argument that is empty or holds no dictionary, the function returns true, the
  shared state is the one before the call (no key is written) and so is the trace of
  calls into the environment: no bulk request is issued and no retry sleep is made.
\<close>

theorem send_bulk_nothing_to_send:
  "aws_opensearch_endpoint self = Some endpoint \<and> endpoint \<noteq> []
     \<and> list_all (\<lambda>l. \<not> is_dict l) logs \<longrightarrow>
   fst (send_bulk_to_opensearch self env logs prefix maxr ib w) = Inr True
   \<and> shared_state (snd (send_bulk_to_opensearch self env logs prefix maxr ib w)) = shared_state w
   \<and> effects (snd (send_bulk_to_opensearch self env logs prefix maxr ib w)) = effects w"
proof
  assume h: "aws_opensearch_endpoint self = Some endpoint \<and> endpoint \<noteq> []
     \<and> list_all (\<lambda>l. \<not> is_dict l) logs"
  obtain r w1 where b: "bulk_data_loop self env prefix logs [] w = (r, w1)"
    by (cases "bulk_data_loop self env prefix logs [] w")
  from h bulk_data_loop_no_dict [of logs self env prefix "[]" w] b
  have r: "r = Inr []" and s: "shared_state w1 = shared_state w" and e: "effects w1 = effects w"
    by simp_all
  show "fst (send_bulk_to_opensearch self env logs prefix maxr ib w) = Inr True
   \<and> shared_state (snd (send_bulk_to_opensearch self env logs prefix maxr ib w)) = shared_state w
   \<and> effects (snd (send_bulk_to_opensearch self env logs prefix maxr ib w)) = effects w"
    using h by (simp add: send_bulk_to_opensearch_def Let_def b r s e)
qed

theorem send_bulk_nothing_to_send_witness:
  "aws_opensearch_endpoint aws0 = Some ''https://search.example.com''
   \<and> send_bulk_to_opensearch aws0 aws_env0 [] ''suricata-'' 5 1 world0 = (Inr True, world0)
   \<and> fst (send_bulk_to_opensearch aws0 aws_env0 [OtherLog (PStr ''x''), OtherLog (PInt 3)]
            ''suricata-'' 5 1 world0) = Inr True
   \<and> shared_state (snd (send_bulk_to_opensearch aws0 aws_env0
            [OtherLog (PStr ''x''), OtherLog (PInt 3)] ''suricata-'' 5 1 world0)) = Map.empty
   \<and> effects (snd (send_bulk_to_opensearch aws0 aws_env0
            [OtherLog (PStr ''x''), OtherLog (PInt 3)] ''suricata-'' 5 1 world0)) = []
   \<and> effects (snd (send_bulk_to_opensearch aws0 aws_env0
            [OtherLog (PStr ''x''), DictLog ''doc''] ''suricata-'' 5 1 world0))
       = [BulkRequest (''index suricata-2026.11.04'' @ [CHR 0x0A] @ ''doc'' @ [CHR 0x0A])]"
proof -
  have e: "aws_opensearch_endpoint aws0 = Some ''https://search.example.com''"
    by (simp add: aws0_def)
  have a: "send_bulk_to_opensearch aws0 aws_env0 [] ''suricata-'' 5 1 world0 = (Inr True, world0)"
    by (simp add: send_bulk_to_opensearch_def aws0_def)
  from send_bulk_nothing_to_send [of aws0 "''https://search.example.com''"
      "[OtherLog (PStr ''x''), OtherLog (PInt 3)]" aws_env0 "''suricata-''" 5 1 world0] e
  have b: "fst (send_bulk_to_opensearch aws0 aws_env0 [OtherLog (PStr ''x''), OtherLog (PInt 3)]
            ''suricata-'' 5 1 world0) = Inr True"
    and c: "shared_state (snd (send_bulk_to_opensearch aws0 aws_env0
            [OtherLog (PStr ''x''), OtherLog (PInt 3)] ''suricata-'' 5 1 world0)) = Map.empty"
    and d: "effects (snd (send_bulk_to_opensearch aws0 aws_env0
            [OtherLog (PStr ''x''), OtherLog (PInt 3)] ''suricata-'' 5 1 world0)) = []"
    by (simp_all add: world0_def)
  have f: "effects (snd (send_bulk_to_opensearch aws0 aws_env0
            [OtherLog (PStr ''x''), DictLog ''doc''] ''suricata-'' 5 1 world0))
       = [BulkRequest (''index suricata-2026.11.04'' @ [CHR 0x0A] @ ''doc'' @ [CHR 0x0A])]"
    by (simp add: send_bulk_to_opensearch_def aws0_def aws_env0_def get_def split_str_def
        send_loop.simps bulk_attempt_def world0_def logging_def perform_def set_state_def Let_def)
  from e a b c d f show ?thesis by simp
qed

end
